theory Spec2Isabelle
  imports Complex_Main "HOL-Library.Word"
begin

unbundle bit_operations_syntax

section \<open>Values that cross the binding\<close>

text \<open>
  \<^verbatim>\<open>nav-mesh-query.ts\<close> is a wrapper: every method of \<^verbatim>\<open>NavMeshQuery\<close> converts its
  arguments, calls one method of the native object \<^verbatim>\<open>this.raw\<close> and packs what comes
  back. A JavaScript number that holds a coordinate is a \<open>float\<close>; the wrapper copies
  coordinates and never computes with them. Counts and bounds are integers, a polygon
  reference is an unsigned integer with \<open>0\<close> for "none".
\<close>

type_synonym float = real
type_synonym polyRef = nat

record Vector3 =
  x :: float
  y :: float
  z :: float

text \<open>
  \<^verbatim>\<open>Arrays.UnsignedIntArray\<close>, \<^verbatim>\<open>Arrays.FloatArray\<close>, \<^verbatim>\<open>Arrays.UnsignedCharArray\<close>: a
  native buffer with a \<^verbatim>\<open>size\<close> and an unchecked \<^verbatim>\<open>get(i)\<close>. The read is a function of
  every index, as the native memory is: nothing is "out of range" for it.
\<close>

record 'a raw_array =
  arr_size :: int
  arr_get :: "int \<Rightarrow> 'a"

text \<open>
  Modelled from the spec: \<^verbatim>\<open>utils.ts\<close> (\<^verbatim>\<open>vec3.toArray\<close>, \<^verbatim>\<open>vec3.fromRaw\<close>, \<^verbatim>\<open>array\<close>) is not
  among the sources. A vertex is "a 3D point ... in a flat coordinate buffer", so
  \<^verbatim>\<open>toArray\<close> is the three coordinates in order and \<^verbatim>\<open>fromRaw\<close> copies them out of a
  native \<^verbatim>\<open>Raw.Vec3\<close>; \<^verbatim>\<open>array(f, n)\<close> is the JavaScript array \<open>[f(0), ..., f(n - 1)]\<close>, empty
  when \<open>n \<le> 0\<close>.
\<close>

definition vec3_toArray :: "Vector3 \<Rightarrow> float list" where
  "vec3_toArray v = [x v, y v, z v]"

definition vec3_fromRaw :: "Vector3 \<Rightarrow> Vector3" where
  "vec3_fromRaw r = \<lparr>x = x r, y = y r, z = z r\<rparr>"

definition array :: "(int \<Rightarrow> 'a) \<Rightarrow> int \<Rightarrow> 'a list" where
  "array f n = map (\<lambda>i. f (int i)) [0..<nat n]"

section \<open>The query filter\<close>

text \<open>
  Modelled from the spec: the native \<^verbatim>\<open>dtQueryFilter\<close> is not among the sources. It is
  "include-flags and exclude-flags bitmasks" and "a cost-per-area-id table (default 1.0)"
  with "one slot per area id, ... 0-63"; the accessors of the two masks read and write
  these fields. The table is a function of the slot; only slots below \<open>DT_MAX_AREAS\<close> are
  slots of the filter.
\<close>

record dtQueryFilter =
  m_includeFlags :: "16 word"
  m_excludeFlags :: "16 word"
  m_areaCost :: "nat \<Rightarrow> float"

definition DT_MAX_AREAS :: nat where
  "DT_MAX_AREAS = 64"

text \<open>
  Modelled from the spec: "a polygon is passable iff
  \<^verbatim>\<open>(poly.flags & include) != 0 && (poly.flags & exclude) == 0\<close>".
\<close>

definition passFilter :: "dtQueryFilter \<Rightarrow> 16 word \<Rightarrow> bool" where
  "passFilter f flags \<longleftrightarrow> (flags AND m_includeFlags f) \<noteq> 0 \<and> (flags AND m_excludeFlags f) = 0"

text \<open>\<^verbatim>\<open>class QueryFilter\<close>: a handle \<^verbatim>\<open>raw\<close> on a native filter.\<close>

record QueryFilter =
  qf_raw :: nat

section \<open>The native module\<close>

text \<open>
  What the wrapper hands to the native module, call by call: the trace of a run. The
  arguments are those of the source's call, output parameters left out.
\<close>

datatype raw_call =
    Call_findNearestPoly "float list" "float list" dtQueryFilter
  | Call_findPolysAroundCircle polyRef "float list" float dtQueryFilter int
  | Call_queryPolygons "float list" "float list" dtQueryFilter int
  | Call_closestPointOnPoly polyRef "float list"
  | Call_getClosestPoint "float list" "float list" dtQueryFilter
  | Call_getRandomPointAround "float list" float "float list" dtQueryFilter
  | Call_moveAlongSurface polyRef "float list" "float list" dtQueryFilter int
  | Call_findRandomPoint dtQueryFilter
  | Call_getPolyHeight polyRef "float list"
  | Call_findPath polyRef polyRef "float list" "float list" dtQueryFilter int
  | Call_findStraightPath "float list" "float list" "polyRef raw_array" int int

text \<open>
  Every call into the native module: a call of a query method, the setter of a filter's
  area cost, or \<^verbatim>\<open>destroy\<close>. A native call either returns or throws; the wrapper has no
  \<^verbatim>\<open>try\<close> and no \<^verbatim>\<open>throw\<close>, so the only exception of a method is one that a native call
  throws and that goes through the method.
\<close>

datatype native_call = Query raw_call | SetAreaCost dtQueryFilter int float | Destroy

datatype js_exception = NativeError

text \<open>
  \<^verbatim>\<open>Raw.Module\<close> (\<^verbatim>\<open>raw.ts\<close>, \<^verbatim>\<open>raw-module.d.ts\<close> and the native code behind them) is not
  among the sources: the wrapper is verified for every native module. A native method
  reads its arguments and the engine \<open>'e\<close> (mesh, node pool, random state) and returns
  its output parameters with the engine it leaves behind; \<open>raw_throws\<close> says of a call
  and an engine whether the call throws instead of returning. The model hands the method
  the filter as a value: what the native code does through the handle of a filter is
  outside this model. \<open>'s\<close> is the status code (\<^verbatim>\<open>dtStatus\<close>), read only through
  \<^verbatim>\<open>Raw.Detour.statusSucceed\<close>; \<open>'fl\<close> is the flag of a straight-path vertex.
\<close>

record ('e, 's, 'fl) raw_module =
  statusSucceed :: "'s \<Rightarrow> bool"
  new_dtQueryFilter :: dtQueryFilter
  raw_getAreaCost :: "dtQueryFilter \<Rightarrow> int \<Rightarrow> float"
  raw_setAreaCost :: "dtQueryFilter \<Rightarrow> int \<Rightarrow> float \<Rightarrow> dtQueryFilter"
  raw_init :: "'e \<Rightarrow> int \<Rightarrow> 'e"
  raw_findNearestPoly ::
    "float list \<Rightarrow> float list \<Rightarrow> dtQueryFilter \<Rightarrow> 'e \<Rightarrow> ('s \<times> polyRef \<times> Vector3 \<times> bool) \<times> 'e"
  raw_findPolysAroundCircle ::
    "polyRef \<Rightarrow> float list \<Rightarrow> float \<Rightarrow> dtQueryFilter \<Rightarrow> int \<Rightarrow> 'e \<Rightarrow>
      ('s \<times> polyRef raw_array \<times> polyRef raw_array \<times> float \<times> int) \<times> 'e"
  raw_queryPolygons ::
    "float list \<Rightarrow> float list \<Rightarrow> dtQueryFilter \<Rightarrow> int \<Rightarrow> 'e \<Rightarrow>
      ('s \<times> polyRef raw_array \<times> int) \<times> 'e"
  raw_closestPointOnPoly ::
    "polyRef \<Rightarrow> float list \<Rightarrow> 'e \<Rightarrow> ('s \<times> Vector3 \<times> bool) \<times> 'e"
  raw_getClosestPoint ::
    "float list \<Rightarrow> float list \<Rightarrow> dtQueryFilter \<Rightarrow> 'e \<Rightarrow> Vector3 \<times> 'e"
  raw_getRandomPointAround ::
    "float list \<Rightarrow> float \<Rightarrow> float list \<Rightarrow> dtQueryFilter \<Rightarrow> 'e \<Rightarrow> Vector3 \<times> 'e"
  raw_moveAlongSurface ::
    "polyRef \<Rightarrow> float list \<Rightarrow> float list \<Rightarrow> dtQueryFilter \<Rightarrow> int \<Rightarrow> 'e \<Rightarrow>
      ('s \<times> Vector3 \<times> polyRef raw_array) \<times> 'e"
  raw_findRandomPoint ::
    "dtQueryFilter \<Rightarrow> 'e \<Rightarrow> ('s \<times> polyRef \<times> Vector3) \<times> 'e"
  raw_getPolyHeight ::
    "polyRef \<Rightarrow> float list \<Rightarrow> 'e \<Rightarrow> ('s \<times> float) \<times> 'e"
  raw_findPath ::
    "polyRef \<Rightarrow> polyRef \<Rightarrow> float list \<Rightarrow> float list \<Rightarrow> dtQueryFilter \<Rightarrow> int \<Rightarrow> 'e \<Rightarrow>
      ('s \<times> polyRef raw_array) \<times> 'e"
  raw_findStraightPath ::
    "float list \<Rightarrow> float list \<Rightarrow> polyRef raw_array \<Rightarrow> int \<Rightarrow> int \<Rightarrow> 'e \<Rightarrow>
      ('s \<times> float raw_array \<times> 'fl raw_array \<times> polyRef raw_array \<times> int) \<times> 'e"
  raw_destroy :: "'e \<Rightarrow> 'e"
  raw_throws :: "native_call \<Rightarrow> 'e \<Rightarrow> bool"

text \<open>
  The world a call runs in: the native filters by handle, the next free handle, the
  engine behind \<^verbatim>\<open>this.raw\<close>, and the trace of the native query calls made so far.
\<close>

record 'e world =
  filters :: "nat \<Rightarrow> dtQueryFilter"
  next_filter :: nat
  engine :: 'e
  trace :: "raw_call list"

section \<open>What the methods return\<close>

text \<open>
  Every method that reports a status returns an object with \<^verbatim>\<open>success\<close> and \<^verbatim>\<open>status\<close> next
  to its payload fields; \<^verbatim>\<open>computePath\<close> returns \<^verbatim>\<open>success\<close>, an optional \<^verbatim>\<open>error\<close> and
  \<^verbatim>\<open>path\<close>.
\<close>

record success_result =
  success :: bool

record 's status_result = success_result +
  status :: 's

record 's findNearestPoly_result = "'s status_result" +
  nearestRef :: polyRef
  nearestPoint :: Vector3
  isOverPoly :: bool

record 's findPolysAroundCircle_result = "'s status_result" +
  resultRefs :: "polyRef list"
  resultParents :: "polyRef list"
  resultCost :: float
  resultCount :: int

record 's queryPolygons_result = "'s status_result" +
  polyRefs :: "polyRef list"
  polyCount :: int

record 's closestPointOnPoly_result = "'s status_result" +
  closestPoint :: Vector3
  posOverPoly :: bool

record 's moveAlongSurface_result = "'s status_result" +
  resultPosition :: Vector3
  visited :: "polyRef list"

record 's findRandomPoint_result = "'s status_result" +
  randomPolyRef :: polyRef
  randomPoint :: Vector3

record 's getPolyHeight_result = "'s status_result" +
  height :: float

record 's findPath_result = "'s status_result" +
  polys :: "polyRef raw_array"

record ('s, 'fl) findStraightPath_result = "'s status_result" +
  straightPath :: "float raw_array"
  straightPathFlags :: "'fl raw_array"
  straightPathRefs :: "polyRef raw_array"
  straightPathCount :: int

record 's computePath_error =
  name :: string
  error_status :: "'s option"

record 's computePath_result = success_result +
  error :: "'s computePath_error option"
  path :: "Vector3 list"

section \<open>\<^verbatim>\<open>class QueryFilter\<close>\<close>

text \<open>
  \<^verbatim>\<open>constructor(raw?)\<close>: the handle given, or a new native filter. The getters and setters
  go to the native object; \<^verbatim>\<open>setAreaCost\<close> is declared \<^verbatim>\<open>void\<close> and returns what the native
  setter returns, which the binding declares \<^verbatim>\<open>void\<close> as well.
\<close>

definition QueryFilter_new ::
  "('e, 's, 'fl) raw_module \<Rightarrow> nat option \<Rightarrow> 'e world \<Rightarrow> QueryFilter \<times> 'e world" where
  "QueryFilter_new R raw w =
     (case raw of
        Some h \<Rightarrow> (\<lparr>qf_raw = h\<rparr>, w)
      | None \<Rightarrow>
          (\<lparr>qf_raw = next_filter w\<rparr>,
           w\<lparr>filters := (filters w)(next_filter w := new_dtQueryFilter R),
             next_filter := Suc (next_filter w)\<rparr>))"


definition set_includeFlags :: "QueryFilter \<Rightarrow> 16 word \<Rightarrow> 'e world \<Rightarrow> 'e world" where
  "set_includeFlags f flags w =
     w\<lparr>filters := (filters w)(qf_raw f := (filters w (qf_raw f))\<lparr>m_includeFlags := flags\<rparr>)\<rparr>"


definition set_excludeFlags :: "QueryFilter \<Rightarrow> 16 word \<Rightarrow> 'e world \<Rightarrow> 'e world" where
  "set_excludeFlags f flags w =
     w\<lparr>filters := (filters w)(qf_raw f := (filters w (qf_raw f))\<lparr>m_excludeFlags := flags\<rparr>)\<rparr>"

definition getAreaCost :: "('e, 's, 'fl) raw_module \<Rightarrow> QueryFilter \<Rightarrow> int \<Rightarrow> 'e world \<Rightarrow> float" where
  "getAreaCost R f i w = raw_getAreaCost R (filters w (qf_raw f)) i"

definition setAreaCost ::
  "('e, 's, 'fl) raw_module \<Rightarrow> QueryFilter \<Rightarrow> int \<Rightarrow> float \<Rightarrow> 'e world \<Rightarrow> unit \<times> 'e world" where
  "setAreaCost R f i cost w =
     ((), w\<lparr>filters := (filters w)(qf_raw f := raw_setAreaCost R (filters w (qf_raw f)) i cost)\<rparr>)"

text \<open>
  The call of \<^verbatim>\<open>setAreaCost\<close> with what the native setter may throw: the method has no
  check of its own, so it throws when the setter does and returns nothing otherwise.
\<close>

definition run_setAreaCost ::
  "('e, 's, 'fl) raw_module \<Rightarrow> QueryFilter \<Rightarrow> int \<Rightarrow> float \<Rightarrow> 'e world \<Rightarrow>
     js_exception + unit \<times> 'e world" where
  "run_setAreaCost R f i cost w =
     (if raw_throws R (SetAreaCost (filters w (qf_raw f)) i cost) (engine w) then Inl NativeError
      else Inr (setAreaCost R f i cost w))"

text \<open>
  Modelled from the spec: the native filter's constructor and its area-cost accessors are
  not among the sources. A filter starts as the "default (include-all, exclude-none, unit
  cost)"; the table has "one slot per area id, id range ... 0-63". What the native
  accessors do with an id outside the range is \<open>oob_get\<close> and \<open>oob_set\<close>: the spec has the
  engine report \<^verbatim>\<open>invalid-area\<close>, which a \<^verbatim>\<open>void\<close> setter and a \<^verbatim>\<open>number\<close> getter cannot
  carry, so the effect is left open.
\<close>

definition dtQueryFilter_default :: dtQueryFilter where
  "dtQueryFilter_default =
     \<lparr>m_includeFlags = 0xffff, m_excludeFlags = 0, m_areaCost = (\<lambda>i. 1)\<rparr>"

definition dt_getAreaCost ::
  "(dtQueryFilter \<Rightarrow> int \<Rightarrow> float) \<Rightarrow> dtQueryFilter \<Rightarrow> int \<Rightarrow> float" where
  "dt_getAreaCost oob_get f i =
     (if 0 \<le> i \<and> i < int DT_MAX_AREAS then m_areaCost f (nat i) else oob_get f i)"

definition dt_setAreaCost ::
  "(dtQueryFilter \<Rightarrow> int \<Rightarrow> float \<Rightarrow> dtQueryFilter) \<Rightarrow>
     dtQueryFilter \<Rightarrow> int \<Rightarrow> float \<Rightarrow> dtQueryFilter" where
  "dt_setAreaCost oob_set f i cost =
     (if 0 \<le> i \<and> i < int DT_MAX_AREAS then f\<lparr>m_areaCost := (m_areaCost f)(nat i := cost)\<rparr>
      else oob_set f i cost)"

section \<open>\<^verbatim>\<open>class NavMeshQuery\<close>\<close>

record NavMeshQuery =
  defaultFilter :: QueryFilter
  defaultQueryHalfExtents :: Vector3

text \<open>
  \<^verbatim>\<open>constructor(value)\<close>: \<open>Inl ()\<close> is a native query object taken as it is, \<open>Inr (navMesh,
  maxNodes)\<close> the parameters of a new one, whose \<^verbatim>\<open>init\<close> gets \<^verbatim>\<open>maxNodes ?? 2048\<close>. Then
  the default filter is created and its two masks are set.
\<close>

definition NavMeshQuery_new ::
  "('e, 's, 'fl) raw_module \<Rightarrow> unit + ('e \<times> int option) \<Rightarrow> 'e world \<Rightarrow> NavMeshQuery \<times> 'e world" where
  "NavMeshQuery_new R v w =
     (let w1 = (case v of
                  Inl _ \<Rightarrow> w
                | Inr (navMesh, maxNodes) \<Rightarrow>
                    w\<lparr>engine := raw_init R navMesh (case maxNodes of Some n \<Rightarrow> n | None \<Rightarrow> 2048)\<rparr>);
          (df, w2) = QueryFilter_new R None w1;
          w3 = set_includeFlags df 0xffff w2;
          w4 = set_excludeFlags df 0 w3
      in (\<lparr>defaultFilter = df, defaultQueryHalfExtents = \<lparr>x = 1, y = 1, z = 1\<rparr>\<rparr>, w4))"

definition findNearestPoly ::
  "('e, 's, 'fl) raw_module \<Rightarrow> NavMeshQuery \<Rightarrow> Vector3 \<Rightarrow> QueryFilter option \<Rightarrow> Vector3 option \<Rightarrow>
     'e world \<Rightarrow> 's findNearestPoly_result \<times> 'e world" where
  "findNearestPoly R q position filter' halfExtents w =
     (let pos = vec3_toArray position;
          he = vec3_toArray (case halfExtents of Some h \<Rightarrow> h | None \<Rightarrow> defaultQueryHalfExtents q);
          f = filters w (case filter' of Some f \<Rightarrow> qf_raw f | None \<Rightarrow> qf_raw (defaultFilter q));
          ((st, nRef, nPoint, over), e) = raw_findNearestPoly R pos he f (engine w)
      in (\<lparr>success = statusSucceed R st, status = st, nearestRef = nRef,
            nearestPoint = vec3_fromRaw nPoint, isOverPoly = over\<rparr>,
          w\<lparr>engine := e, trace := trace w @ [Call_findNearestPoly pos he f]\<rparr>))"

definition findPolysAroundCircle ::
  "('e, 's, 'fl) raw_module \<Rightarrow> NavMeshQuery \<Rightarrow> polyRef \<Rightarrow> Vector3 \<Rightarrow> float \<Rightarrow> QueryFilter option \<Rightarrow>
     int option \<Rightarrow> 'e world \<Rightarrow> 's findPolysAroundCircle_result \<times> 'e world" where
  "findPolysAroundCircle R q startRef centerPos radius filter' maxPolys w =
     (let flt = (case filter' of Some f \<Rightarrow> f | None \<Rightarrow> defaultFilter q);
          maxPolys' = (case maxPolys of Some n \<Rightarrow> n | None \<Rightarrow> 256);
          c = vec3_toArray centerPos;
          f = filters w (qf_raw flt);
          ((st, resultRef, resultParent, cost, cnt), e) =
             raw_findPolysAroundCircle R startRef c radius f maxPolys' (engine w)
      in (\<lparr>success = statusSucceed R st, status = st,
            resultRefs = array (\<lambda>i. arr_get resultRef i) cnt,
            resultParents = array (\<lambda>i. arr_get resultParent i) cnt,
            resultCost = cost, resultCount = cnt\<rparr>,
          w\<lparr>engine := e,
            trace := trace w @ [Call_findPolysAroundCircle startRef c radius f maxPolys']\<rparr>))"

definition queryPolygons ::
  "('e, 's, 'fl) raw_module \<Rightarrow> NavMeshQuery \<Rightarrow> Vector3 \<Rightarrow> Vector3 \<Rightarrow> QueryFilter option \<Rightarrow>
     int option \<Rightarrow> 'e world \<Rightarrow> 's queryPolygons_result \<times> 'e world" where
  "queryPolygons R q center halfExtents filter' maxPolys w =
     (let flt = (case filter' of Some f \<Rightarrow> f | None \<Rightarrow> defaultFilter q);
          maxPolys' = (case maxPolys of Some n \<Rightarrow> n | None \<Rightarrow> 256);
          c = vec3_toArray center;
          he = vec3_toArray halfExtents;
          f = filters w (qf_raw flt);
          ((st, polysRef, cnt), e) = raw_queryPolygons R c he f maxPolys' (engine w)
      in (\<lparr>success = statusSucceed R st, status = st,
            polyRefs = array (\<lambda>i. arr_get polysRef i) cnt, polyCount = cnt\<rparr>,
          w\<lparr>engine := e, trace := trace w @ [Call_queryPolygons c he f maxPolys']\<rparr>))"

definition closestPointOnPoly ::
  "('e, 's, 'fl) raw_module \<Rightarrow> NavMeshQuery \<Rightarrow> polyRef \<Rightarrow> Vector3 \<Rightarrow>
     'e world \<Rightarrow> 's closestPointOnPoly_result \<times> 'e world" where
  "closestPointOnPoly R q polyRef position w =
     (let pos = vec3_toArray position;
          ((st, cp, over), e) = raw_closestPointOnPoly R polyRef pos (engine w)
      in (\<lparr>success = statusSucceed R st, status = st,
            closestPoint = vec3_fromRaw cp, posOverPoly = over\<rparr>,
          w\<lparr>engine := e, trace := trace w @ [Call_closestPointOnPoly polyRef pos]\<rparr>))"

definition getClosestPoint ::
  "('e, 's, 'fl) raw_module \<Rightarrow> NavMeshQuery \<Rightarrow> Vector3 \<Rightarrow> QueryFilter option \<Rightarrow> Vector3 option \<Rightarrow>
     'e world \<Rightarrow> Vector3 \<times> 'e world" where
  "getClosestPoint R q position filter' halfExtents w =
     (let pos = vec3_toArray position;
          he = vec3_toArray (case halfExtents of Some h \<Rightarrow> h | None \<Rightarrow> defaultQueryHalfExtents q);
          f = filters w (case filter' of Some f \<Rightarrow> qf_raw f | None \<Rightarrow> qf_raw (defaultFilter q));
          (closestPointRaw, e) = raw_getClosestPoint R pos he f (engine w)
      in (vec3_fromRaw closestPointRaw,
          w\<lparr>engine := e, trace := trace w @ [Call_getClosestPoint pos he f]\<rparr>))"

definition getRandomPointAround ::
  "('e, 's, 'fl) raw_module \<Rightarrow> NavMeshQuery \<Rightarrow> Vector3 \<Rightarrow> float \<Rightarrow> QueryFilter option \<Rightarrow>
     Vector3 option \<Rightarrow> 'e world \<Rightarrow> Vector3 \<times> 'e world" where
  "getRandomPointAround R q position radius filter' halfExtents w =
     (let pos = vec3_toArray position;
          he = vec3_toArray (case halfExtents of Some h \<Rightarrow> h | None \<Rightarrow> defaultQueryHalfExtents q);
          f = filters w (case filter' of Some f \<Rightarrow> qf_raw f | None \<Rightarrow> qf_raw (defaultFilter q));
          (randomPointRaw, e) = raw_getRandomPointAround R pos radius he f (engine w)
      in (vec3_fromRaw randomPointRaw,
          w\<lparr>engine := e, trace := trace w @ [Call_getRandomPointAround pos radius he f]\<rparr>))"

definition moveAlongSurface ::
  "('e, 's, 'fl) raw_module \<Rightarrow> NavMeshQuery \<Rightarrow> polyRef \<Rightarrow> Vector3 \<Rightarrow> Vector3 \<Rightarrow>
     QueryFilter option \<Rightarrow> int option \<Rightarrow> 'e world \<Rightarrow> 's moveAlongSurface_result \<times> 'e world" where
  "moveAlongSurface R q startRef startPosition endPosition filter' maxVisitedSize w =
     (let maxVisitedSize' = (case maxVisitedSize of Some n \<Rightarrow> n | None \<Rightarrow> 256);
          f = filters w (case filter' of Some f \<Rightarrow> qf_raw f | None \<Rightarrow> qf_raw (defaultFilter q));
          sp = vec3_toArray startPosition;
          ep = vec3_toArray endPosition;
          ((st, resultPos, vis), e) = raw_moveAlongSurface R startRef sp ep f maxVisitedSize' (engine w)
      in (\<lparr>success = statusSucceed R st, status = st,
            resultPosition = vec3_fromRaw resultPos,
            visited = array (\<lambda>i. arr_get vis i) (arr_size vis)\<rparr>,
          w\<lparr>engine := e,
            trace := trace w @ [Call_moveAlongSurface startRef sp ep f maxVisitedSize']\<rparr>))"

definition findRandomPoint ::
  "('e, 's, 'fl) raw_module \<Rightarrow> NavMeshQuery \<Rightarrow> QueryFilter option \<Rightarrow>
     'e world \<Rightarrow> 's findRandomPoint_result \<times> 'e world" where
  "findRandomPoint R q filter' w =
     (let f = filters w (case filter' of Some f \<Rightarrow> qf_raw f | None \<Rightarrow> qf_raw (defaultFilter q));
          ((st, rRef, rPoint), e) = raw_findRandomPoint R f (engine w)
      in (\<lparr>success = statusSucceed R st, status = st, randomPolyRef = rRef,
            randomPoint = vec3_fromRaw rPoint\<rparr>,
          w\<lparr>engine := e, trace := trace w @ [Call_findRandomPoint f]\<rparr>))"

definition getPolyHeight ::
  "('e, 's, 'fl) raw_module \<Rightarrow> NavMeshQuery \<Rightarrow> polyRef \<Rightarrow> Vector3 \<Rightarrow>
     'e world \<Rightarrow> 's getPolyHeight_result \<times> 'e world" where
  "getPolyHeight R q polyRef position w =
     (let pos = vec3_toArray position;
          ((st, h), e) = raw_getPolyHeight R polyRef pos (engine w)
      in (\<lparr>success = statusSucceed R st, status = st, height = h\<rparr>,
          w\<lparr>engine := e, trace := trace w @ [Call_getPolyHeight polyRef pos]\<rparr>))"

definition findPath ::
  "('e, 's, 'fl) raw_module \<Rightarrow> NavMeshQuery \<Rightarrow> polyRef \<Rightarrow> polyRef \<Rightarrow> Vector3 \<Rightarrow> Vector3 \<Rightarrow>
     QueryFilter option \<Rightarrow> int option \<Rightarrow> 'e world \<Rightarrow> 's findPath_result \<times> 'e world" where
  "findPath R q startRef endRef startPosition endPosition filter' maxPathPolys w =
     (let flt = (case filter' of Some f \<Rightarrow> f | None \<Rightarrow> defaultFilter q);
          maxPathPolys' = (case maxPathPolys of Some n \<Rightarrow> n | None \<Rightarrow> 256);
          sp = vec3_toArray startPosition;
          ep = vec3_toArray endPosition;
          f = filters w (qf_raw flt);
          ((st, ps), e) = raw_findPath R startRef endRef sp ep f maxPathPolys' (engine w)
      in (\<lparr>success = statusSucceed R st, status = st, polys = ps\<rparr>,
          w\<lparr>engine := e,
            trace := trace w @ [Call_findPath startRef endRef sp ep f maxPathPolys']\<rparr>))"

definition findStraightPath ::
  "('e, 's, 'fl) raw_module \<Rightarrow> NavMeshQuery \<Rightarrow> Vector3 \<Rightarrow> Vector3 \<Rightarrow> polyRef raw_array \<Rightarrow>
     int option \<Rightarrow> int option \<Rightarrow> 'e world \<Rightarrow> ('s, 'fl) findStraightPath_result \<times> 'e world" where
  "findStraightPath R q start end' pth maxStraightPathPoints straightPathOptions w =
     (let maxStraightPathPoints' = (case maxStraightPathPoints of Some n \<Rightarrow> n | None \<Rightarrow> 256);
          straightPathOptions' = (case straightPathOptions of Some n \<Rightarrow> n | None \<Rightarrow> 0);
          s = vec3_toArray start;
          t = vec3_toArray end';
          ((st, sp, spFlags, spRefs, cnt), e) =
             raw_findStraightPath R s t pth maxStraightPathPoints' straightPathOptions' (engine w)
      in (\<lparr>success = statusSucceed R st, status = st, straightPath = sp,
            straightPathFlags = spFlags, straightPathRefs = spRefs, straightPathCount = cnt\<rparr>,
          w\<lparr>engine := e,
            trace := trace w @
              [Call_findStraightPath s t pth maxStraightPathPoints' straightPathOptions']\<rparr>))"

text \<open>The early returns of \<^verbatim>\<open>computePath\<close>: \<^verbatim>\<open>success: false\<close>, an error, an empty path.\<close>

definition failed :: "string \<Rightarrow> 's option \<Rightarrow> 's computePath_result" where
  "failed n st = \<lparr>success = False, error = Some \<lparr>name = n, error_status = st\<rparr>, path = []\<rparr>"

text \<open>
  The tail of \<^verbatim>\<open>computePath\<close>, from \<^verbatim>\<open>// find straight path\<close> on: string-pulling from
  \<^verbatim>\<open>start\<close> to \<^verbatim>\<open>closestEnd\<close>, then one point for every \<open>i\<close> from \<open>0\<close> below
  \<^verbatim>\<open>straightPathCount\<close>, read from the flat buffer.
\<close>

definition computePath_straight ::
  "('e, 's, 'fl) raw_module \<Rightarrow> NavMeshQuery \<Rightarrow> Vector3 \<Rightarrow> Vector3 \<Rightarrow> polyRef raw_array \<Rightarrow>
     int option \<Rightarrow> 'e world \<Rightarrow> 's computePath_result \<times> 'e world" where
  "computePath_straight R q start closestEnd ps maxStraightPathPoints w =
     (let (findStraightPathResult, w5) =
             findStraightPath R q start closestEnd ps maxStraightPathPoints None w
      in if \<not> success findStraightPathResult
         then (failed ''findStraightPath unsuccessful''
                 (Some (status findStraightPathResult)), w5)
         else
           (\<lparr>success = True, error = None,
             path = map (\<lambda>i. \<lparr>x = arr_get (straightPath findStraightPathResult) (i * 3),
                              y = arr_get (straightPath findStraightPathResult) (i * 3 + 1),
                              z = arr_get (straightPath findStraightPathResult) (i * 3 + 2)\<rparr>)
                      (map int [0..<nat (straightPathCount findStraightPathResult)])\<rparr>,
            w5))"

definition computePath ::
  "('e, 's, 'fl) raw_module \<Rightarrow> NavMeshQuery \<Rightarrow> Vector3 \<Rightarrow> Vector3 \<Rightarrow> QueryFilter option \<Rightarrow>
     int option \<Rightarrow> int option \<Rightarrow> 'e world \<Rightarrow> 's computePath_result \<times> 'e world" where
  "computePath R q start end' filter' maxPathPolys maxStraightPathPoints w =
     (let flt = (case filter' of Some f \<Rightarrow> f | None \<Rightarrow> defaultFilter q);
          (startNearestPolyResult, w1) = findNearestPoly R q start (Some flt) None w
      in if \<not> success startNearestPolyResult
         then (failed ''findNearestPoly for start position failed''
                 (Some (status startNearestPolyResult)), w1)
         else
     (let (endNearestPolyResult, w2) = findNearestPoly R q end' (Some flt) None w1
      in if \<not> success endNearestPolyResult
         then (failed ''findNearestPoly for end position failed''
                 (Some (status endNearestPolyResult)), w2)
         else
     (let startRef = nearestRef startNearestPolyResult;
          endRef = nearestRef endNearestPolyResult;
          maxPathPolys' = (case maxPathPolys of Some n \<Rightarrow> n | None \<Rightarrow> 256);
          (findPathResult, w3) =
             findPath R q startRef endRef start end' (Some flt) (Some maxPathPolys') w2
      in if \<not> success findPathResult
         then (failed ''findPath unsuccessful'' (Some (status findPathResult)), w3)
         else if arr_size (polys findPathResult) \<le> 0
         then (failed ''no polygon path found'' None, w3)
         else
     (let lastPoly = arr_get (polys findPathResult) (arr_size (polys findPathResult) - 1)
      in if lastPoly \<noteq> endRef
         then
           (let (lastPolyClosestPointResult, w4) = closestPointOnPoly R q lastPoly end' w3
            in if \<not> success lastPolyClosestPointResult
               then (failed ''no closest point on last polygon found''
                       (Some (status lastPolyClosestPointResult)), w4)
               else computePath_straight R q start (closestPoint lastPolyClosestPointResult)
                      (polys findPathResult) maxStraightPathPoints w4)
         else computePath_straight R q start \<lparr>x = x end', y = y end', z = z end'\<rparr>
                (polys findPathResult) maxStraightPathPoints w3))))"


section \<open>Methods and exceptions\<close>
















section \<open>What a caller can read off a returned value\<close>

text \<open>
  The value a method hands back, tagged with the method. \<open>explicit_success\<close> is the
  \<^verbatim>\<open>success\<close> field of the returned object and \<open>explicit_status\<close> its status code, when
  the object has one: \<^verbatim>\<open>getClosestPoint\<close> and \<^verbatim>\<open>getRandomPointAround\<close> are declared
  \<^verbatim>\<open>: Vector3\<close> and return the bare point, \<^verbatim>\<open>setAreaCost\<close> and \<^verbatim>\<open>destroy\<close> are declared
  \<^verbatim>\<open>: void\<close>.
\<close>

datatype ('s, 'fl) returned =
    Ret_findNearestPoly "'s findNearestPoly_result"
  | Ret_findPolysAroundCircle "'s findPolysAroundCircle_result"
  | Ret_queryPolygons "'s queryPolygons_result"
  | Ret_closestPointOnPoly "'s closestPointOnPoly_result"
  | Ret_getClosestPoint Vector3
  | Ret_getRandomPointAround Vector3
  | Ret_moveAlongSurface "'s moveAlongSurface_result"
  | Ret_findRandomPoint "'s findRandomPoint_result"
  | Ret_getPolyHeight "'s getPolyHeight_result"
  | Ret_computePath "'s computePath_result"
  | Ret_findPath "'s findPath_result"
  | Ret_findStraightPath "('s, 'fl) findStraightPath_result"
  | Ret_setAreaCost unit
  | Ret_destroy unit

fun explicit_success :: "('s, 'fl) returned \<Rightarrow> bool option" where
  "explicit_success (Ret_findNearestPoly r) = Some (success r)"
| "explicit_success (Ret_findPolysAroundCircle r) = Some (success r)"
| "explicit_success (Ret_queryPolygons r) = Some (success r)"
| "explicit_success (Ret_closestPointOnPoly r) = Some (success r)"
| "explicit_success (Ret_getClosestPoint v) = None"
| "explicit_success (Ret_getRandomPointAround v) = None"
| "explicit_success (Ret_moveAlongSurface r) = Some (success r)"
| "explicit_success (Ret_findRandomPoint r) = Some (success r)"
| "explicit_success (Ret_getPolyHeight r) = Some (success r)"
| "explicit_success (Ret_computePath r) = Some (success r)"
| "explicit_success (Ret_findPath r) = Some (success r)"
| "explicit_success (Ret_findStraightPath r) = Some (success r)"
| "explicit_success (Ret_setAreaCost u) = None"
| "explicit_success (Ret_destroy u) = None"

fun explicit_status :: "('s, 'fl) returned \<Rightarrow> 's option" where
  "explicit_status (Ret_findNearestPoly r) = Some (status r)"
| "explicit_status (Ret_findPolysAroundCircle r) = Some (status r)"
| "explicit_status (Ret_queryPolygons r) = Some (status r)"
| "explicit_status (Ret_closestPointOnPoly r) = Some (status r)"
| "explicit_status (Ret_getClosestPoint v) = None"
| "explicit_status (Ret_getRandomPointAround v) = None"
| "explicit_status (Ret_moveAlongSurface r) = Some (status r)"
| "explicit_status (Ret_findRandomPoint r) = Some (status r)"
| "explicit_status (Ret_getPolyHeight r) = Some (status r)"
| "explicit_status (Ret_computePath r) =
     (case error r of None \<Rightarrow> None | Some e \<Rightarrow> error_status e)"
| "explicit_status (Ret_findPath r) = Some (status r)"
| "explicit_status (Ret_findStraightPath r) = Some (status r)"
| "explicit_status (Ret_setAreaCost u) = None"
| "explicit_status (Ret_destroy u) = None"


section \<open>A scripted native module\<close>

text \<open>
  A native module that answers from a script, to run the wrapper on concrete inputs. Its
  engine counts the calls; its status codes are \<^verbatim>\<open>dtStatus\<close> words, success being bit 30.
  Its filters start with nothing included and write any area slot they are given. None
  of its calls throws.
\<close>

definition raw_array_of :: "'a \<Rightarrow> 'a list \<Rightarrow> 'a raw_array" where
  "raw_array_of d xs =
     \<lparr>arr_size = int (length xs),
      arr_get = (\<lambda>i. if 0 \<le> i \<and> i < int (length xs) then xs ! nat i else d)\<rparr>"

record script =
  sc_nearest :: "float list \<Rightarrow> 32 word \<times> polyRef"
  sc_path :: "32 word \<times> polyRef list"
  sc_closest :: "32 word \<times> Vector3"
  sc_straight :: "32 word \<times> float list \<times> int"

definition DT_SUCCESS :: "32 word" where
  "DT_SUCCESS = 0x40000000"

definition DT_FAILURE :: "32 word" where
  "DT_FAILURE = 0x80000000"

definition scripted :: "script \<Rightarrow> (nat, 32 word, 8 word) raw_module" where
  "scripted sc =
     \<lparr>statusSucceed = (\<lambda>s. s AND DT_SUCCESS \<noteq> 0),
      new_dtQueryFilter = \<lparr>m_includeFlags = 0, m_excludeFlags = 0xffff, m_areaCost = (\<lambda>i. 0)\<rparr>,
      raw_getAreaCost = (\<lambda>f i. m_areaCost f (nat i)),
      raw_setAreaCost = (\<lambda>f i cost. f\<lparr>m_areaCost := (m_areaCost f)(nat i := cost)\<rparr>),
      raw_init = (\<lambda>navMesh maxNodes. navMesh),
      raw_findNearestPoly = (\<lambda>pos he f e.
         ((fst (sc_nearest sc pos), snd (sc_nearest sc pos),
           \<lparr>x = pos ! 0, y = pos ! 1, z = pos ! 2\<rparr>, True), Suc e)),
      raw_findPolysAroundCircle = (\<lambda>r c rad f n e.
         ((DT_SUCCESS, raw_array_of 0 [r], raw_array_of 0 [0], 0, 1), Suc e)),
      raw_queryPolygons = (\<lambda>c he f n e. ((DT_SUCCESS, raw_array_of 0 [1, 2], 2), Suc e)),
      raw_closestPointOnPoly = (\<lambda>r pos e.
         ((fst (sc_closest sc), snd (sc_closest sc), False), Suc e)),
      raw_getClosestPoint = (\<lambda>pos he f e. (\<lparr>x = 0, y = 0, z = 0\<rparr>, Suc e)),
      raw_getRandomPointAround = (\<lambda>pos rad he f e. (\<lparr>x = real e, y = 0, z = 0\<rparr>, Suc e)),
      raw_moveAlongSurface = (\<lambda>r s t f n e.
         ((DT_SUCCESS, \<lparr>x = t ! 0, y = t ! 1, z = t ! 2\<rparr>, raw_array_of 0 [r]), Suc e)),
      raw_findRandomPoint = (\<lambda>f e. ((DT_SUCCESS, 1, \<lparr>x = real e, y = 0, z = 0\<rparr>), Suc e)),
      raw_getPolyHeight = (\<lambda>r pos e. ((DT_SUCCESS, pos ! 1), Suc e)),
      raw_findPath = (\<lambda>a b s t f n e.
         ((fst (sc_path sc), raw_array_of 0 (snd (sc_path sc))), Suc e)),
      raw_findStraightPath = (\<lambda>s t ps n opt e.
         ((fst (sc_straight sc), raw_array_of 0 (fst (snd (sc_straight sc))),
           raw_array_of 0 [], raw_array_of 0 [], snd (snd (sc_straight sc))), Suc e)),
      raw_destroy = (\<lambda>e. 0),
      raw_throws = (\<lambda>c e. False)\<rparr>"

text \<open>
  The script of a run that goes through: both positions are found (polygons 1 and 3),
  the corridor is \<open>[1, 2]\<close>, so its last polygon is not the end polygon and the end is moved
  to \<open>(5, 0, 5)\<close>; the straight path has two points.
\<close>

definition script_ok :: script where
  "script_ok =
     \<lparr>sc_nearest = (\<lambda>pos. (DT_SUCCESS, if pos = [0, 0, 0] then 1 else 3)),
      sc_path = (DT_SUCCESS, [1, 2]),
      sc_closest = (DT_SUCCESS, \<lparr>x = 5, y = 0, z = 5\<rparr>),
      sc_straight = (DT_SUCCESS, [0, 0, 0, 5, 0, 5], 2)\<rparr>"

definition world0 :: "nat world" where
  "world0 =
     \<lparr>filters = (\<lambda>h. \<lparr>m_includeFlags = 1, m_excludeFlags = 2, m_areaCost = (\<lambda>i. 1)\<rparr>),
      next_filter = 1, engine = 0, trace = []\<rparr>"

definition query0 :: NavMeshQuery where
  "query0 = \<lparr>defaultFilter = \<lparr>qf_raw = 0\<rparr>, defaultQueryHalfExtents = \<lparr>x = 1, y = 1, z = 1\<rparr>\<rparr>"

definition origin :: Vector3 where
  "origin = \<lparr>x = 0, y = 0, z = 0\<rparr>"

definition far :: Vector3 where
  "far = \<lparr>x = 9, y = 0, z = 9\<rparr>"

text \<open>
  Modelled from the spec: a native module with the filter of the spec behind it. A new
  filter is the default one and an id in the range reads and writes its slot; the spec's
  words are "Per-area cost defaults to 1.0" and "one slot per area id".
\<close>

definition with_spec_filter ::
  "('e, 's, 'fl) raw_module \<Rightarrow> (dtQueryFilter \<Rightarrow> int \<Rightarrow> float) \<Rightarrow>
     (dtQueryFilter \<Rightarrow> int \<Rightarrow> float \<Rightarrow> dtQueryFilter) \<Rightarrow> ('e, 's, 'fl) raw_module" where
  "with_spec_filter R oob_get oob_set =
     R\<lparr>new_dtQueryFilter := dtQueryFilter_default,
       raw_getAreaCost := dt_getAreaCost oob_get,
       raw_setAreaCost := dt_setAreaCost oob_set\<rparr>"

text \<open>
  The scripted module with that filter; here an id outside the range writes nothing and
  reads \<open>0\<close>.
\<close>

definition spec_filter_module :: "(nat, 32 word, 8 word) raw_module" where
  "spec_filter_module = with_spec_filter (scripted script_ok) (\<lambda>f i. 0) (\<lambda>f i cost. f)"

section \<open>The engine behind the binding, from the spec\<close>

text \<open>
  Modelled from the spec: the native query engine (\<^verbatim>\<open>Raw.Module.NavMeshQuery\<close> and the
  mesh it reads) is not among the sources. What follows is the engine the spec describes:
  the tiled mesh of its data model, the filter test, the range queries, the corridor
  search and string-pulling, each from the words of the section named with it.
\<close>

subsection \<open>Tiled mesh store\<close>

text \<open>
  Modelled from the spec: the data model. A link is "one directed adjacency edge from a
  polygon to a neighboring polygon", with the "target polygon reference, a ... \<^verbatim>\<open>next\<close>
  pointer ..., the crossing edge index, a side identifier ..., and min/max bounds along
  that edge"; the bounds are fractions of the edge. A polygon is an "ordered list of
  vertex indices", "a 16-bit area-and-type field (area id in low bits, type ... in high
  bits)", "a traversal flags bitmask", "per-edge neighbor references" and "an index into
  the first outgoing Link record". An off-mesh connection is an edge "between two
  arbitrary points", with "a radius ..., an owning polygon, flags, a side marker, and a
  user-assigned id". A tile holds a "salt", "arrays of polygons, vertices, links ...,
  off-mesh connections"; vertices are "stored packed per tile in a flat coordinate
  buffer". The header, the detail meshes and the bounding-volume tree of a tile are read
  by none of the queries below and are left out.
\<close>

record dtLink =
  l_ref :: polyRef
  l_next :: "nat option"
  l_edge :: nat
  l_side :: nat
  l_bmin :: float
  l_bmax :: float

record dtPoly =
  p_firstLink :: "nat option"
  p_verts :: "nat list"
  p_neis :: "nat list"
  p_flags :: "16 word"
  p_areaAndType :: "16 word"

record dtOffMeshConnection =
  c_pos :: "Vector3 \<times> Vector3"
  c_rad :: float
  c_poly :: nat
  c_flags :: "16 word"
  c_side :: nat
  c_userId :: nat

record dtMeshTile =
  t_salt :: nat
  t_polys :: "dtPoly list"
  t_verts :: "float list"
  t_links :: "dtLink list"
  t_offMeshCons :: "dtOffMeshConnection list"

record dtNavMesh =
  m_tiles :: "dtMeshTile list"
  m_saltBits :: nat
  m_tileBits :: nat
  m_polyBits :: nat

text \<open>
  Modelled from the spec: "area id in low bits, type ... in high bits", the area ids being
  \<open>0..63\<close>: six bits of area, the type above them, \<open>0\<close> for normal ground.
\<close>

definition getArea :: "dtPoly \<Rightarrow> nat" where
  "getArea p = unat (p_areaAndType p AND 0x3f)"

definition getType :: "dtPoly \<Rightarrow> nat" where
  "getType p = unat (drop_bit 6 (p_areaAndType p))"

definition isOffMesh :: "dtPoly \<Rightarrow> bool" where
  "isOffMesh p \<longleftrightarrow> getType p \<noteq> 0"

text \<open>
  Modelled from the spec: a polygon reference is "a packed integer with documented bit
  layout (salt | tile-index | poly-index)", "valid only if the tile's current salt
  matches", and "a reference of 0 is reserved as none".
\<close>

definition encodePolyId :: "dtNavMesh \<Rightarrow> nat \<Rightarrow> nat \<Rightarrow> nat \<Rightarrow> polyRef" where
  "encodePolyId m salt it ip =
     salt * 2 ^ (m_tileBits m + m_polyBits m) + it * 2 ^ m_polyBits m + ip"

definition decodePolyIdSalt :: "dtNavMesh \<Rightarrow> polyRef \<Rightarrow> nat" where
  "decodePolyIdSalt m r = (r div 2 ^ (m_tileBits m + m_polyBits m)) mod 2 ^ m_saltBits m"

definition decodePolyIdTile :: "dtNavMesh \<Rightarrow> polyRef \<Rightarrow> nat" where
  "decodePolyIdTile m r = (r div 2 ^ m_polyBits m) mod 2 ^ m_tileBits m"

definition decodePolyIdPoly :: "dtNavMesh \<Rightarrow> polyRef \<Rightarrow> nat" where
  "decodePolyIdPoly m r = r mod 2 ^ m_polyBits m"

definition getTileAndPoly :: "dtNavMesh \<Rightarrow> polyRef \<Rightarrow> (dtMeshTile \<times> dtPoly) option" where
  "getTileAndPoly m r =
     (if r = 0 then None
      else if decodePolyIdTile m r < length (m_tiles m)
       then (let t = m_tiles m ! decodePolyIdTile m r
             in if t_salt t = decodePolyIdSalt m r \<and> decodePolyIdPoly m r < length (t_polys t)
                then Some (t, t_polys t ! decodePolyIdPoly m r)
                else None)
       else None)"

definition isValidPolyRef :: "dtNavMesh \<Rightarrow> polyRef \<Rightarrow> bool" where
  "isValidPolyRef m r \<longleftrightarrow> getTileAndPoly m r \<noteq> None"

text \<open>A polygon that exists and passes the filter.\<close>

definition passable :: "dtNavMesh \<Rightarrow> dtQueryFilter \<Rightarrow> polyRef \<Rightarrow> bool" where
  "passable m f r =
     (case getTileAndPoly m r of None \<Rightarrow> False | Some (t, p) \<Rightarrow> passFilter f (p_flags p))"

text \<open>
  The links of a polygon: the chain from its first link along \<^verbatim>\<open>next\<close> in the tile's link
  array. A chain longer than the array would visit a link twice; the walk stops there.
\<close>

fun linkChain :: "nat \<Rightarrow> dtLink list \<Rightarrow> nat option \<Rightarrow> dtLink list" where
  "linkChain 0 ls i = []"
| "linkChain (Suc n) ls None = []"
| "linkChain (Suc n) ls (Some i) =
     (if i < length ls then ls ! i # linkChain n ls (l_next (ls ! i)) else [])"

definition polyLinks :: "dtMeshTile \<Rightarrow> dtPoly \<Rightarrow> dtLink list" where
  "polyLinks t p = linkChain (length (t_links t)) (t_links t) (p_firstLink p)"

subsection \<open>Geometry\<close>

definition vsub :: "Vector3 \<Rightarrow> Vector3 \<Rightarrow> Vector3" where
  "vsub a b = \<lparr>x = x a - x b, y = y a - y b, z = z a - z b\<rparr>"

definition vlerp :: "Vector3 \<Rightarrow> Vector3 \<Rightarrow> float \<Rightarrow> Vector3" where
  "vlerp a b t = \<lparr>x = x a + (x b - x a) * t, y = y a + (y b - y a) * t, z = z a + (z b - z a) * t\<rparr>"

definition vdistSqr :: "Vector3 \<Rightarrow> Vector3 \<Rightarrow> float" where
  "vdistSqr a b = (x a - x b)\<^sup>2 + (y a - y b)\<^sup>2 + (z a - z b)\<^sup>2"

definition vdist :: "Vector3 \<Rightarrow> Vector3 \<Rightarrow> float" where
  "vdist a b = sqrt (vdistSqr a b)"

definition vec3_fromArray :: "float list \<Rightarrow> Vector3" where
  "vec3_fromArray a =
     (case a of [a0, a1, a2] \<Rightarrow> \<lparr>x = a0, y = a1, z = a2\<rparr> | _ \<Rightarrow> \<lparr>x = 0, y = 0, z = 0\<rparr>)"

text \<open>Vertex \<open>i\<close> of a tile, read from the flat buffer; a vertex outside the buffer reads zeros.\<close>

definition tileVert :: "dtMeshTile \<Rightarrow> nat \<Rightarrow> Vector3" where
  "tileVert t i =
     (if 3 * i + 2 < length (t_verts t)
      then \<lparr>x = t_verts t ! (3 * i), y = t_verts t ! (3 * i + 1), z = t_verts t ! (3 * i + 2)\<rparr>
      else \<lparr>x = 0, y = 0, z = 0\<rparr>)"

definition polyVerts :: "dtMeshTile \<Rightarrow> dtPoly \<Rightarrow> Vector3 list" where
  "polyVerts t p = map (tileVert t) (p_verts p)"

definition polyCenter :: "dtMeshTile \<Rightarrow> dtPoly \<Rightarrow> Vector3" where
  "polyCenter t p =
     (let vs = polyVerts t p; n = real (length vs)
      in if vs = [] then \<lparr>x = 0, y = 0, z = 0\<rparr>
         else \<lparr>x = sum_list (map x vs) / n, y = sum_list (map y vs) / n, z = sum_list (map z vs) / n\<rparr>)"

text \<open>
  Modelled from the spec: "compute the true closest point on each candidate polygon
  (point-in-polygon projected onto the polygon plane, or nearest edge/vertex if outside)".
  Inside and nearest edge are decided in the ground plane (\<open>x\<close>, \<open>z\<close>); the plane of the
  polygon is the one through its first three vertices.
\<close>

definition polyEdges :: "Vector3 list \<Rightarrow> (Vector3 \<times> Vector3) list" where
  "polyEdges vs = zip vs (rotate1 vs)"

definition pointInPolygon :: "Vector3 \<Rightarrow> Vector3 list \<Rightarrow> bool" where
  "pointInPolygon p vs =
     odd (length (filter
       (\<lambda>(a, b). (z p < z a) \<noteq> (z p < z b)
                 \<and> x p < (x b - x a) * (z p - z a) / (z b - z a) + x a)
       (polyEdges vs)))"

definition segParam2D :: "Vector3 \<Rightarrow> Vector3 \<Rightarrow> Vector3 \<Rightarrow> float" where
  "segParam2D p a b =
     (let dx = x b - x a; dz = z b - z a; d = dx * dx + dz * dz;
          t = (if d = 0 then 0 else ((x p - x a) * dx + (z p - z a) * dz) / d)
      in max 0 (min 1 t))"

definition closestOnSeg :: "Vector3 \<Rightarrow> Vector3 \<times> Vector3 \<Rightarrow> Vector3" where
  "closestOnSeg p e = vlerp (fst e) (snd e) (segParam2D p (fst e) (snd e))"

definition distSqr2D :: "Vector3 \<Rightarrow> Vector3 \<Rightarrow> float" where
  "distSqr2D a b = (x a - x b)\<^sup>2 + (z a - z b)\<^sup>2"

fun nearestOf :: "Vector3 \<Rightarrow> Vector3 list \<Rightarrow> Vector3 \<Rightarrow> Vector3" where
  "nearestOf p [] best = best"
| "nearestOf p (c # cs) best =
     nearestOf p cs (if distSqr2D p c < distSqr2D p best then c else best)"

definition planeHeight :: "Vector3 list \<Rightarrow> Vector3 \<Rightarrow> float" where
  "planeHeight vs p =
     (case vs of
        a # b # c # _ \<Rightarrow>
          (let u = vsub b a; v = vsub c a;
               nx = y u * z v - z u * y v;
               ny = z u * x v - x u * z v;
               nz = x u * y v - y u * x v
           in if ny = 0 then y p else y a - (nx * (x p - x a) + nz * (z p - z a)) / ny)
      | _ \<Rightarrow> y p)"

definition closestPointOnVerts :: "Vector3 list \<Rightarrow> Vector3 \<Rightarrow> Vector3 \<times> bool" where
  "closestPointOnVerts vs p =
     (if pointInPolygon p vs then (\<lparr>x = x p, y = planeHeight vs p, z = z p\<rparr>, True)
      else (case map (closestOnSeg p) (polyEdges vs) of
              [] \<Rightarrow> (p, False)
            | c # cs \<Rightarrow> (nearestOf p cs c, False)))"

text \<open>The point a position is clamped to on a polygon; a reference with no polygon clamps nothing.\<close>

definition clampToPoly :: "dtNavMesh \<Rightarrow> polyRef \<Rightarrow> Vector3 \<Rightarrow> Vector3" where
  "clampToPoly m r p =
     (case getTileAndPoly m r of
        None \<Rightarrow> p
      | Some (t, pl) \<Rightarrow> fst (closestPointOnVerts (polyVerts t pl) p))"

subsection \<open>Status codes\<close>

text \<open>
  Modelled from the spec: the taxonomy of its error handling. \<^verbatim>\<open>SearchExhausted\<close> and
  \<^verbatim>\<open>BufferTooSmall\<close> are "not an error", and a partial corridor is "flagged as a partial
  result - never a hard failure": these three are details of a success. A failure is one
  of the others, or the \<^verbatim>\<open>invalid-start\<close> / \<^verbatim>\<open>invalid-end\<close> of the corridor search.
\<close>

datatype dt_detail = PartialResult | BufferTooSmall | SearchExhausted

datatype dt_failure =
  InvalidReference | FilteredOut | NotFound | InvalidArea | InvalidStart | InvalidEnd

datatype dt_status = Success "dt_detail list" | Failure dt_failure

fun dt_statusSucceed :: "dt_status \<Rightarrow> bool" where
  "dt_statusSucceed (Success ds) = True"
| "dt_statusSucceed (Failure e) = False"

fun statusDetail :: "dt_status \<Rightarrow> dt_detail \<Rightarrow> bool" where
  "statusDetail (Success ds) d = (d \<in> set ds)"
| "statusDetail (Failure e) d = False"

subsection \<open>Range query over a box\<close>

text \<open>
  Modelled from the spec: "enumerate all passable polygons (per filter) whose bounds
  intersect a box", tile by tile and polygon by polygon (the "linear scan"); "if more
  polygons match than the bound, only the ... first-encountered ... up to the bound are
  returned, with an output count".
\<close>

definition vmin :: "Vector3 \<Rightarrow> Vector3 \<Rightarrow> Vector3" where
  "vmin a b = \<lparr>x = min (x a) (x b), y = min (y a) (y b), z = min (z a) (z b)\<rparr>"

definition vmax :: "Vector3 \<Rightarrow> Vector3 \<Rightarrow> Vector3" where
  "vmax a b = \<lparr>x = max (x a) (x b), y = max (y a) (y b), z = max (z a) (z b)\<rparr>"

definition overlapBounds :: "Vector3 \<Rightarrow> Vector3 \<Rightarrow> Vector3 \<Rightarrow> Vector3 \<Rightarrow> bool" where
  "overlapBounds amin amax bmin bmax \<longleftrightarrow>
     x amin \<le> x bmax \<and> x bmin \<le> x amax \<and> y amin \<le> y bmax \<and> y bmin \<le> y amax
     \<and> z amin \<le> z bmax \<and> z bmin \<le> z amax"

definition polyOverlapsBox :: "dtMeshTile \<Rightarrow> dtPoly \<Rightarrow> Vector3 \<Rightarrow> Vector3 \<Rightarrow> bool" where
  "polyOverlapsBox t p center halfExtents =
     (case polyVerts t p of
        [] \<Rightarrow> False
      | v # vs \<Rightarrow>
          overlapBounds (fold vmin vs v) (fold vmax vs v)
            (vsub center halfExtents)
            \<lparr>x = x center + x halfExtents, y = y center + y halfExtents,
             z = z center + z halfExtents\<rparr>)"

definition tilePolyRefs :: "dtNavMesh \<Rightarrow> nat \<Rightarrow> (polyRef \<times> dtMeshTile \<times> dtPoly) list" where
  "tilePolyRefs m it =
     (let t = m_tiles m ! it
      in map (\<lambda>ip. (encodePolyId m (t_salt t) it ip, t, t_polys t ! ip)) [0..<length (t_polys t)])"

definition allPolyRefs :: "dtNavMesh \<Rightarrow> (polyRef \<times> dtMeshTile \<times> dtPoly) list" where
  "allPolyRefs m = concat (map (tilePolyRefs m) [0..<length (m_tiles m)])"

definition dt_queryPolygons ::
  "dtNavMesh \<Rightarrow> Vector3 \<Rightarrow> Vector3 \<Rightarrow> dtQueryFilter \<Rightarrow> int \<Rightarrow> dt_status \<times> polyRef list" where
  "dt_queryPolygons m center halfExtents f maxPolys =
     (let found = map fst (filter
            (\<lambda>(r, t, p). passFilter f (p_flags p) \<and> polyOverlapsBox t p center halfExtents)
            (allPolyRefs m))
      in (Success (if nat maxPolys < length found then [BufferTooSmall] else []),
          take (nat maxPolys) found))"

subsection \<open>Corridor search\<close>

text \<open>
  Modelled from the spec: the path engine. A node is a polygon the search has reached,
  with its parent, its "accumulated filtered edge cost from start" \<open>g\<close> and its key
  \<open>f = g + h\<close>; the nodes live in the pool of the engine, "capacity-bounded" by
  \<^verbatim>\<open>maxNodes\<close>. The open set is the nodes not yet closed, the closed set "polygons with
  finalized \<open>g\<close>".
\<close>

record dtNode =
  n_ref :: polyRef
  n_parent :: polyRef
  n_cost :: float
  n_total :: float
  n_closed :: bool

definition findNode :: "dtNode list \<Rightarrow> polyRef \<Rightarrow> dtNode option" where
  "findNode pool r = find (\<lambda>n. n_ref n = r) pool"

definition updateNode :: "dtNode list \<Rightarrow> dtNode \<Rightarrow> dtNode list" where
  "updateNode pool n' = map (\<lambda>n. if n_ref n = n_ref n' then n' else n) pool"

text \<open>"Pop lowest-f node": the open node with the least key, the first of them in the pool.\<close>

fun popBest :: "dtNode list \<Rightarrow> dtNode option" where
  "popBest [] = None"
| "popBest (n # ns) =
     (if n_closed n then popBest ns
      else (case popBest ns of
              None \<Rightarrow> Some n
            | Some b \<Rightarrow> if n_total b < n_total n then Some b else Some n))"

text \<open>
  Modelled from the spec: "edge cost = Euclidean distance between polygon centers (or
  off-mesh connection length) \<open>\<times>\<close> area cost multiplier of the target polygon".
\<close>

definition offMeshCon :: "dtNavMesh \<Rightarrow> polyRef \<Rightarrow> dtOffMeshConnection option" where
  "offMeshCon m r =
     (case getTileAndPoly m r of
        None \<Rightarrow> None
      | Some (t, p) \<Rightarrow> find (\<lambda>c. c_poly c = decodePolyIdPoly m r) (t_offMeshCons t))"

definition refCenter :: "dtNavMesh \<Rightarrow> polyRef \<Rightarrow> Vector3" where
  "refCenter m r =
     (case getTileAndPoly m r of
        None \<Rightarrow> \<lparr>x = 0, y = 0, z = 0\<rparr>
      | Some (t, p) \<Rightarrow> polyCenter t p)"

definition edgeCost :: "dtNavMesh \<Rightarrow> dtQueryFilter \<Rightarrow> polyRef \<Rightarrow> polyRef \<Rightarrow> float" where
  "edgeCost m f a b =
     (case getTileAndPoly m b of
        None \<Rightarrow> 0
      | Some (t, p) \<Rightarrow>
          (case (if isOffMesh p then offMeshCon m b else None) of
             Some c \<Rightarrow> vdist (fst (c_pos c)) (snd (c_pos c))
           | None \<Rightarrow> vdist (refCenter m a) (refCenter m b))
          * m_areaCost f (getArea p))"

text \<open>
  One link of the polygon being expanded: "for every outgoing Link of the current polygon
  whose target polygon passes the filter, compute edge cost ...; relax the neighbor's
  \<open>g\<close>/parent if improved; push/re-push into the open set". A closed neighbour keeps its
  finalized \<open>g\<close>; a new neighbour takes a node of the pool while there is one. \<open>h\<close> is the
  heuristic and \<open>admit\<close> the bound of the search on a neighbour and its cost.
\<close>

definition relaxLink ::
  "dtNavMesh \<Rightarrow> dtQueryFilter \<Rightarrow> (polyRef \<Rightarrow> float) \<Rightarrow> (polyRef \<Rightarrow> float \<Rightarrow> bool) \<Rightarrow> nat \<Rightarrow>
     dtNode \<Rightarrow> dtNode list \<Rightarrow> dtLink \<Rightarrow> dtNode list" where
  "relaxLink m f h admit maxNodes cur pool l =
     (let r = l_ref l; g = n_cost cur + edgeCost m f (n_ref cur) r
      in if \<not> passable m f r \<or> \<not> admit r g then pool
         else (case findNode pool r of
                 Some n \<Rightarrow>
                   if n_closed n \<or> \<not> g < n_cost n then pool
                   else updateNode pool (n\<lparr>n_parent := n_ref cur, n_cost := g, n_total := g + h r\<rparr>)
               | None \<Rightarrow>
                   if length pool < maxNodes
                   then pool @ [\<lparr>n_ref = r, n_parent = n_ref cur, n_cost = g, n_total = g + h r,
                                 n_closed = False\<rparr>]
                   else pool))"

definition expandNode ::
  "dtNavMesh \<Rightarrow> dtQueryFilter \<Rightarrow> (polyRef \<Rightarrow> float) \<Rightarrow> (polyRef \<Rightarrow> float \<Rightarrow> bool) \<Rightarrow> nat \<Rightarrow>
     dtNode \<Rightarrow> dtNode list \<Rightarrow> dtNode list" where
  "expandNode m f h admit maxNodes cur pool =
     (case getTileAndPoly m (n_ref cur) of
        None \<Rightarrow> pool
      | Some (t, p) \<Rightarrow> foldl (relaxLink m f h admit maxNodes cur) pool (polyLinks t p))"

text \<open>
  The search: "pop lowest-f node; if it is the goal polygon, terminate successfully ...
  Otherwise" expand it. Every round closes a node, and the pool has at most \<^verbatim>\<open>maxNodes\<close>
  of them: the rounds are capped at that number ("node-pool/iteration cap"). The result
  is how the search ended, the pool it leaves, and the polygons in the order they were
  closed.
\<close>

datatype search_end = Reached | OpenEmpty | CapHit

fun bestFirst ::
  "nat \<Rightarrow> (dtNode \<Rightarrow> dtNode list \<Rightarrow> dtNode list) \<Rightarrow> polyRef \<Rightarrow> dtNode list \<Rightarrow> polyRef list \<Rightarrow>
     search_end \<times> dtNode list \<times> polyRef list" where
  "bestFirst 0 expand goal pool order = (CapHit, pool, order)"
| "bestFirst (Suc k) expand goal pool order =
     (case popBest pool of
        None \<Rightarrow> (OpenEmpty, pool, order)
      | Some cur \<Rightarrow>
          (let pool1 = updateNode pool (cur\<lparr>n_closed := True\<rparr>);
               order1 = order @ [n_ref cur]
           in if n_ref cur = goal then (Reached, pool1, order1)
              else bestFirst k expand goal (expand cur pool1) order1))"

text \<open>
  "Reconstruct the path by walking parent pointers", from the last polygon back to the
  one without a parent; the walk is as long as the pool at most.
\<close>

fun walkParents :: "nat \<Rightarrow> dtNode list \<Rightarrow> polyRef \<Rightarrow> polyRef list \<Rightarrow> polyRef list" where
  "walkParents 0 pool r acc = acc"
| "walkParents (Suc k) pool r acc =
     (case findNode pool r of
        None \<Rightarrow> acc
      | Some n \<Rightarrow> if n_parent n = 0 then r # acc else walkParents k pool (n_parent n) (r # acc))"

text \<open>
  "The closest-to-goal polygon visited": the node of the pool with the least heuristic
  \<open>f - g\<close>, the first of them.
\<close>

fun closestToGoal :: "dtNode list \<Rightarrow> dtNode \<Rightarrow> dtNode" where
  "closestToGoal [] best = best"
| "closestToGoal (n # ns) best =
     closestToGoal ns (if n_total n - n_cost n < n_total best - n_cost best then n else best)"

text \<open>
  Modelled from the spec: the corridor search of one path request. "Start or end polygon
  invalid/excluded by filter \<open>\<rightarrow>\<close> immediate failure"; \<open>h\<close> is the "straight-line heuristic
  distance to goal"; when the goal is not reached the result is "the partial path to the
  closest-to-goal polygon visited ..., flagged as a partial result"; a path longer than
  the caller's bound is cut to the bound, counted from the start. The result is the
  status, the corridor and the pool the search leaves in the engine.
\<close>

definition dt_findPath ::
  "dtNavMesh \<Rightarrow> nat \<Rightarrow> polyRef \<Rightarrow> polyRef \<Rightarrow> Vector3 \<Rightarrow> Vector3 \<Rightarrow> dtQueryFilter \<Rightarrow> int \<Rightarrow>
     dt_status \<times> polyRef list \<times> dtNode list" where
  "dt_findPath m maxNodes startRef endRef startPos endPos f maxPath =
     (if \<not> passable m f startRef then (Failure InvalidStart, [], [])
      else if \<not> passable m f endRef then (Failure InvalidEnd, [], [])
      else
        (let h = (\<lambda>r. vdist (refCenter m r) endPos);
             startNode = \<lparr>n_ref = startRef, n_parent = 0, n_cost = 0, n_total = h startRef,
                          n_closed = False\<rparr>;
             (how, pool, order) =
                bestFirst maxNodes (expandNode m f h (\<lambda>r g. True) maxNodes) endRef [startNode] [];
             lastRef = (if how = Reached then endRef else n_ref (closestToGoal pool startNode));
             corridor = walkParents (length pool) pool lastRef []
         in (Success ((if lastRef \<noteq> endRef then [PartialResult] else [])
                      @ (if how = CapHit \<or> (how = OpenEmpty \<and> maxNodes \<le> length pool)
                         then [SearchExhausted] else [])
                      @ (if nat maxPath < length corridor then [BufferTooSmall] else [])),
             take (nat maxPath) corridor, pool)))"

subsection \<open>Range query over a circle\<close>

text \<open>
  Modelled from the spec: the polygons "whose mesh-graph distance from a start polygon
  stays within a circle", by "a bounded best-first graph expansion": the search above
  with no goal and no heuristic, a neighbour being admitted while its cost along the
  graph, counted from the centre of the circle, stays within the radius. "If more
  polygons match than the bound, only the closest ... up to the bound are returned, with
  an output count"; each comes with its parent, and the cost returned is "accumulated
  filtered path cost from start" of the last one.
\<close>

definition dt_findPolysAroundCircle ::
  "dtNavMesh \<Rightarrow> nat \<Rightarrow> polyRef \<Rightarrow> Vector3 \<Rightarrow> float \<Rightarrow> dtQueryFilter \<Rightarrow> int \<Rightarrow>
     dt_status \<times> polyRef list \<times> polyRef list \<times> float \<times> dtNode list" where
  "dt_findPolysAroundCircle m maxNodes startRef centerPos radius f maxResult =
     (if \<not> isValidPolyRef m startRef then (Failure InvalidReference, [], [], 0, [])
      else if \<not> passable m f startRef then (Failure FilteredOut, [], [], 0, [])
      else
        (let g0 = vdist centerPos (refCenter m startRef);
             startNode = \<lparr>n_ref = startRef, n_parent = 0, n_cost = g0, n_total = g0,
                          n_closed = False\<rparr>;
             (how, pool, order) =
                bestFirst maxNodes (expandNode m f (\<lambda>r. 0) (\<lambda>r g. g \<le> radius) maxNodes) 0
                  [startNode] [];
             found = take (nat maxResult) order;
             nodeOf = (\<lambda>r. case findNode pool r of Some n \<Rightarrow> n | None \<Rightarrow> startNode)
         in (Success ((if how = CapHit then [SearchExhausted] else [])
                      @ (if nat maxResult < length order then [BufferTooSmall] else [])),
             found, map (\<lambda>r. n_parent (nodeOf r)) found,
             (if found = [] then 0 else n_cost (nodeOf (last found))), pool)))"

subsection \<open>String-pulling\<close>

text \<open>
  Modelled from the spec: the straight path engine. A vertex of the straight path is a
  point with one of the "per-vertex flags: normal, link-entry, path-end" and the
  reference of the polygon entered there.
\<close>

datatype vflag = Normal | LinkEntry | PathEnd

type_synonym straight_vertex = "Vector3 \<times> vflag \<times> polyRef"

text \<open>
  "The portal (shared edge, clipped to its Link's min/max bounds) between each
  consecutive pair of corridor polygons": the edge of the link from the first polygon to
  the second, cut at the two bounds.
\<close>

definition portalPoints :: "dtNavMesh \<Rightarrow> polyRef \<Rightarrow> polyRef \<Rightarrow> (Vector3 \<times> Vector3) option" where
  "portalPoints m a b =
     (case getTileAndPoly m a of
        None \<Rightarrow> None
      | Some (t, p) \<Rightarrow>
          (case find (\<lambda>l. l_ref l = b) (polyLinks t p) of
             None \<Rightarrow> None
           | Some l \<Rightarrow>
               (let vs = polyVerts t p; n = length vs
                in if l_edge l < n
                   then Some (vlerp (vs ! l_edge l) (vs ! (Suc (l_edge l) mod n)) (l_bmin l),
                              vlerp (vs ! l_edge l) (vs ! (Suc (l_edge l) mod n)) (l_bmax l))
                   else None)))"

text \<open>The "signed area" of the "standard left/right turn test", in the ground plane.\<close>

definition triArea2D :: "Vector3 \<Rightarrow> Vector3 \<Rightarrow> Vector3 \<Rightarrow> float" where
  "triArea2D a b c = (x c - x a) * (z b - z a) - (x b - x a) * (z c - z a)"

record funnel =
  apex :: Vector3
  portalLeft :: Vector3
  portalRight :: Vector3
  leftRef :: polyRef
  rightRef :: polyRef

text \<open>
  One step of the funnel: "test the next portal's two corners against the current
  funnel's two sides; apex advances to the far side's corner whenever the funnel would
  cross it ..., emitting a straight-path vertex at each apex relocation; otherwise the
  funnel" takes the corner as its new side "without emitting". A side that coincides with
  the apex is a "zero-width funnel side" and is replaced. \<open>r\<close> is the polygon entered
  through the portal.
\<close>

definition restartAt :: "Vector3 \<Rightarrow> polyRef \<Rightarrow> funnel" where
  "restartAt p r = \<lparr>apex = p, portalLeft = p, portalRight = p, leftRef = r, rightRef = r\<rparr>"

definition funnelStep ::
  "funnel \<Rightarrow> Vector3 \<Rightarrow> Vector3 \<Rightarrow> polyRef \<Rightarrow> funnel \<times> straight_vertex list" where
  "funnelStep fs left right r =
     (if triArea2D (apex fs) (portalRight fs) right \<le> 0
         \<and> \<not> (apex fs = portalRight fs \<or> 0 < triArea2D (apex fs) (portalLeft fs) right)
      then (restartAt (portalLeft fs) (leftRef fs), [(portalLeft fs, Normal, leftRef fs)])
      else
        (let fs1 = (if triArea2D (apex fs) (portalRight fs) right \<le> 0
                    then fs\<lparr>portalRight := right, rightRef := r\<rparr> else fs)
         in if 0 \<le> triArea2D (apex fs1) (portalLeft fs1) left
               \<and> \<not> (apex fs1 = portalLeft fs1 \<or> triArea2D (apex fs1) (portalRight fs1) left < 0)
            then (restartAt (portalRight fs1) (rightRef fs1),
                  [(portalRight fs1, Normal, rightRef fs1)])
            else
              ((if 0 \<le> triArea2D (apex fs1) (portalLeft fs1) left
                then fs1\<lparr>portalLeft := left, leftRef := r\<rparr> else fs1), [])))"

text \<open>
  What the funnel meets along the corridor: a portal into the next polygon, or an
  off-mesh connection, which "interrupt[s] the funnel: emit a vertex at the connection's
  entry point with a link entry flag, then restart funnel tracking from the connection's
  exit point in the following polygon". The connection is walked from its first point to
  its second. Between two polygons with no link there is no portal and no step.
\<close>

datatype pull_step = Portal Vector3 Vector3 polyRef | OffMeshLink Vector3 Vector3 polyRef

definition isOffMeshRef :: "dtNavMesh \<Rightarrow> polyRef \<Rightarrow> bool" where
  "isOffMeshRef m r = (case getTileAndPoly m r of None \<Rightarrow> False | Some (t, p) \<Rightarrow> isOffMesh p)"

fun corridorSteps :: "dtNavMesh \<Rightarrow> polyRef list \<Rightarrow> pull_step list" where
  "corridorSteps m (a # b # rest) =
     (case (if isOffMeshRef m b then offMeshCon m b else None) of
        Some c \<Rightarrow> [OffMeshLink (fst (c_pos c)) (snd (c_pos c)) b]
      | None \<Rightarrow>
          (if isOffMeshRef m a then []
           else (case portalPoints m a b of
                   None \<Rightarrow> []
                 | Some (l, r) \<Rightarrow> [Portal l r b])))
     @ corridorSteps m (b # rest)"
| "corridorSteps m rest = []"

fun pull :: "funnel \<Rightarrow> pull_step list \<Rightarrow> straight_vertex list" where
  "pull fs [] = []"
| "pull fs (Portal l r nref # rest) =
     snd (funnelStep fs l r nref) @ pull (fst (funnelStep fs l r nref)) rest"
| "pull fs (OffMeshLink entry exit nref # rest) =
     (entry, LinkEntry, nref) # pull (restartAt exit nref) rest"

text \<open>
  Appending a vertex: "degenerate portals ... must not produce ... zero-length steps", so
  a vertex at the point of the last one takes its place instead of following it.
  "Output arrays ... are caller-bounded; if the bound is reached before the goal is
  emitted, the partial straight path (from start toward goal) is returned with a
  truncated count rather than failing": emitting stops when the output is full, and the
  result says whether vertices were left.
\<close>

definition appendVertex :: "straight_vertex list \<Rightarrow> straight_vertex \<Rightarrow> straight_vertex list" where
  "appendVertex out v =
     (if out \<noteq> [] \<and> fst (last out) = fst v then butlast out @ [v] else out @ [v])"

fun emitAll ::
  "nat \<Rightarrow> straight_vertex list \<Rightarrow> straight_vertex list \<Rightarrow> straight_vertex list \<times> bool" where
  "emitAll mx out [] = (out, False)"
| "emitAll mx out (v # vs) =
     (if mx \<le> length out then (out, True) else emitAll mx (appendVertex out v) vs)"

text \<open>
  Modelled from the spec: string-pulling over a corridor. The start is clamped to the
  first polygon and the end to the last; the vertices are the start, those the funnel
  emits (the end closing the corridor as a last portal of no width), and "the final
  emitted vertex is always the (corridor-clamped) end point, flagged as path end; its
  associated polygon reference is always none". A corridor with no first or last polygon
  in the mesh is an invalid reference. The options of the call are not described by the
  spec and change nothing here.
\<close>

definition dt_findStraightPath ::
  "dtNavMesh \<Rightarrow> Vector3 \<Rightarrow> Vector3 \<Rightarrow> polyRef list \<Rightarrow> int \<Rightarrow> int \<Rightarrow>
     dt_status \<times> straight_vertex list" where
  "dt_findStraightPath m startPos endPos corridor maxStraightPath options =
     (if corridor = [] \<or> \<not> isValidPolyRef m (hd corridor) \<or> \<not> isValidPolyRef m (last corridor)
      then (Failure InvalidReference, [])
      else
        (let closestStartPos = clampToPoly m (hd corridor) startPos;
             closestEndPos = clampToPoly m (last corridor) endPos;
             (out, cut) =
                emitAll (nat maxStraightPath) []
                  ((closestStartPos, Normal, hd corridor)
                   # pull (restartAt closestStartPos (hd corridor))
                       (corridorSteps m corridor @ [Portal closestEndPos closestEndPos 0])
                   @ [(closestEndPos, PathEnd, 0)])
         in (Success (if cut then [BufferTooSmall] else []), out)))"

subsection \<open>The engine as a native module\<close>

text \<open>
  Modelled from the spec: the engine holds the mesh it was initialised on and its
  "mutable scratch state (open/closed sets, node pool) sized at construction",
  "reset (not reallocated) between calls": each search starts from an empty pool and
  leaves its own. \<open>detour R\<close> is the native module \<open>R\<close> with the methods modelled above in
  place of its own. A result array is the buffer the wrapper sized, its first entries
  written; \<^verbatim>\<open>findPath\<close> sets the size of its array to the length of the corridor, as the
  test \<^verbatim>\<open>polys.size <= 0\<close> of \<^verbatim>\<open>computePath\<close> has it.
\<close>

record dtEngine =
  e_mesh :: dtNavMesh
  e_maxNodes :: nat
  e_nodePool :: "dtNode list"

definition written :: "int \<Rightarrow> 'a \<Rightarrow> 'a list \<Rightarrow> 'a raw_array" where
  "written n d xs = \<lparr>arr_size = n, arr_get = arr_get (raw_array_of d xs)\<rparr>"

definition detour ::
  "(dtEngine, dt_status, vflag) raw_module \<Rightarrow> (dtEngine, dt_status, vflag) raw_module" where
  "detour R =
     R\<lparr>statusSucceed := dt_statusSucceed,
       new_dtQueryFilter := dtQueryFilter_default,
       raw_init := (\<lambda>navMesh maxNodes. navMesh\<lparr>e_maxNodes := nat maxNodes, e_nodePool := []\<rparr>),
       raw_findPolysAroundCircle := (\<lambda>startRef c radius f maxPolys e.
          (let (st, refs, parents, cost, pool) =
                 dt_findPolysAroundCircle (e_mesh e) (e_maxNodes e) startRef (vec3_fromArray c)
                   radius f maxPolys
           in ((st, written maxPolys 0 refs, written maxPolys 0 parents, cost, int (length refs)),
               e\<lparr>e_nodePool := pool\<rparr>))),
       raw_queryPolygons := (\<lambda>c he f maxPolys e.
          (let (st, refs) =
                 dt_queryPolygons (e_mesh e) (vec3_fromArray c) (vec3_fromArray he) f maxPolys
           in ((st, written maxPolys 0 refs, int (length refs)), e))),
       raw_closestPointOnPoly := (\<lambda>r pos e.
          (case getTileAndPoly (e_mesh e) r of
             None \<Rightarrow> ((Failure InvalidReference, vec3_fromArray pos, False), e)
           | Some (t, p) \<Rightarrow>
               ((Success [], fst (closestPointOnVerts (polyVerts t p) (vec3_fromArray pos)),
                 snd (closestPointOnVerts (polyVerts t p) (vec3_fromArray pos))), e))),
       raw_findPath := (\<lambda>startRef endRef s t f maxPath e.
          (let (st, corridor, pool) =
                 dt_findPath (e_mesh e) (e_maxNodes e) startRef endRef (vec3_fromArray s)
                   (vec3_fromArray t) f maxPath
           in ((st, raw_array_of 0 corridor), e\<lparr>e_nodePool := pool\<rparr>))),
       raw_findStraightPath := (\<lambda>s t pth maxStraightPath options e.
          (let (st, vs) =
                 dt_findStraightPath (e_mesh e) (vec3_fromArray s) (vec3_fromArray t)
                   (array (arr_get pth) (arr_size pth)) maxStraightPath options
           in ((st,
                written (maxStraightPath * 3) 0 (concat (map (\<lambda>(p, fl, r). [x p, y p, z p]) vs)),
                written maxStraightPath Normal (map (\<lambda>(p, fl, r). fl) vs),
                written maxStraightPath 0 (map (\<lambda>(p, fl, r). r) vs),
                int (length vs)), e)))\<rparr>"

subsection \<open>A mesh to run the engine on\<close>

text \<open>
  A native module none of whose methods finds anything: the module the engine of the spec
  is laid over, where its methods are not modelled.
\<close>

definition no_module :: "(dtEngine, dt_status, vflag) raw_module" where
  "no_module =
     \<lparr>statusSucceed = (\<lambda>s. False),
      new_dtQueryFilter = dtQueryFilter_default,
      raw_getAreaCost = (\<lambda>f i. 0),
      raw_setAreaCost = (\<lambda>f i cost. f),
      raw_init = (\<lambda>navMesh maxNodes. navMesh),
      raw_findNearestPoly = (\<lambda>pos he f e. ((Failure NotFound, 0, \<lparr>x = 0, y = 0, z = 0\<rparr>, False), e)),
      raw_findPolysAroundCircle = (\<lambda>r c rad f n e.
         ((Failure NotFound, raw_array_of 0 [], raw_array_of 0 [], 0, 0), e)),
      raw_queryPolygons = (\<lambda>c he f n e. ((Failure NotFound, raw_array_of 0 [], 0), e)),
      raw_closestPointOnPoly = (\<lambda>r pos e. ((Failure NotFound, \<lparr>x = 0, y = 0, z = 0\<rparr>, False), e)),
      raw_getClosestPoint = (\<lambda>pos he f e. (\<lparr>x = 0, y = 0, z = 0\<rparr>, e)),
      raw_getRandomPointAround = (\<lambda>pos rad he f e. (\<lparr>x = 0, y = 0, z = 0\<rparr>, e)),
      raw_moveAlongSurface = (\<lambda>r s t f n e.
         ((Failure NotFound, \<lparr>x = 0, y = 0, z = 0\<rparr>, raw_array_of 0 []), e)),
      raw_findRandomPoint = (\<lambda>f e. ((Failure NotFound, 0, \<lparr>x = 0, y = 0, z = 0\<rparr>), e)),
      raw_getPolyHeight = (\<lambda>r pos e. ((Failure NotFound, 0), e)),
      raw_findPath = (\<lambda>a b s t f n e. ((Failure NotFound, raw_array_of 0 []), e)),
      raw_findStraightPath = (\<lambda>s t ps n opt e.
         ((Failure NotFound, raw_array_of 0 [], raw_array_of Normal [], raw_array_of 0 [], 0), e)),
      raw_destroy = (\<lambda>e. e),
      raw_throws = (\<lambda>c e. False)\<rparr>"

text \<open>
  The mesh of the end-to-end scenario of the spec: "a flat 2\<open>\<times>\<close>2 polygon mesh where each
  quad shares an edge with its neighbor". One tile of salt 1, nine vertices on the grid
  \<open>0..2 \<times> 0..2\<close> at height 0, the quads 64 (at the origin), 65 (next in \<open>x\<close>), 66 (next in
  \<open>z\<close>) and 67 (diagonal), all with flags 1 and area 0.
\<close>

definition quad :: "nat \<Rightarrow> nat \<Rightarrow> nat option \<Rightarrow> dtPoly" where
  "quad a b l =
     \<lparr>p_firstLink = l,
      p_verts = [b * 3 + a, (b + 1) * 3 + a, (b + 1) * 3 + a + 1, b * 3 + a + 1],
      p_neis = [0, 0, 0, 0], p_flags = 1, p_areaAndType = 0\<rparr>"

definition lnk :: "polyRef \<Rightarrow> nat \<Rightarrow> nat option \<Rightarrow> dtLink" where
  "lnk r e n = \<lparr>l_ref = r, l_next = n, l_edge = e, l_side = 0, l_bmin = 0, l_bmax = 1\<rparr>"

definition grid_tile :: dtMeshTile where
  "grid_tile =
     \<lparr>t_salt = 1,
      t_polys = [quad 0 0 (Some 0), quad 1 0 (Some 2), quad 0 1 (Some 4), quad 1 1 (Some 6)],
      t_verts = [0, 0, 0,  1, 0, 0,  2, 0, 0,
                 0, 0, 1,  1, 0, 1,  2, 0, 1,
                 0, 0, 2,  1, 0, 2,  2, 0, 2],
      t_links = [lnk 65 2 (Some 1), lnk 66 1 None,
                 lnk 64 0 (Some 3), lnk 67 1 None,
                 lnk 64 3 (Some 5), lnk 67 2 None,
                 lnk 66 0 (Some 7), lnk 65 3 None],
      t_offMeshCons = []\<rparr>"

definition grid_mesh :: dtNavMesh where
  "grid_mesh = \<lparr>m_tiles = [grid_tile], m_saltBits = 2, m_tileBits = 2, m_polyBits = 4\<rparr>"

definition grid_engine :: dtEngine where
  "grid_engine = \<lparr>e_mesh = grid_mesh, e_maxNodes = 16, e_nodePool = []\<rparr>"

text \<open>The world of a query engine on that mesh: every filter is the default one.\<close>

definition grid_world :: "dtEngine world" where
  "grid_world =
     \<lparr>filters = (\<lambda>h. dtQueryFilter_default), next_filter = 1, engine = grid_engine, trace = []\<rparr>"

section \<open>Properties of the wrapper\<close>

lemma findNearestPoly_world:
  "snd (findNearestPoly R q p f h w) =
     w\<lparr>engine := snd (raw_findNearestPoly R (vec3_toArray p)
          (vec3_toArray (case h of Some h' \<Rightarrow> h' | None \<Rightarrow> defaultQueryHalfExtents q))
          (filters w (case f of Some f' \<Rightarrow> qf_raw f' | None \<Rightarrow> qf_raw (defaultFilter q)))
          (engine w)),
       trace := trace w @ [Call_findNearestPoly (vec3_toArray p)
          (vec3_toArray (case h of Some h' \<Rightarrow> h' | None \<Rightarrow> defaultQueryHalfExtents q))
          (filters w (case f of Some f' \<Rightarrow> qf_raw f' | None \<Rightarrow> qf_raw (defaultFilter q)))]\<rparr>"
  by (simp add: findNearestPoly_def Let_def case_prod_beta)

lemma findPath_world:
  "snd (findPath R q a b sp ep f m w) =
     w\<lparr>engine := snd (raw_findPath R a b (vec3_toArray sp) (vec3_toArray ep)
          (filters w (qf_raw (case f of Some f' \<Rightarrow> f' | None \<Rightarrow> defaultFilter q)))
          (case m of Some n \<Rightarrow> n | None \<Rightarrow> 256) (engine w)),
       trace := trace w @ [Call_findPath a b (vec3_toArray sp) (vec3_toArray ep)
          (filters w (qf_raw (case f of Some f' \<Rightarrow> f' | None \<Rightarrow> defaultFilter q)))
          (case m of Some n \<Rightarrow> n | None \<Rightarrow> 256)]\<rparr>"
  by (simp add: findPath_def Let_def case_prod_beta)

lemma closestPointOnPoly_world:
  "snd (closestPointOnPoly R q r p w) =
     w\<lparr>engine := snd (raw_closestPointOnPoly R r (vec3_toArray p) (engine w)),
       trace := trace w @ [Call_closestPointOnPoly r (vec3_toArray p)]\<rparr>"
  by (simp add: closestPointOnPoly_def Let_def case_prod_beta)

lemma findStraightPath_world:
  "snd (findStraightPath R q s t ps m opt w) =
     w\<lparr>engine := snd (raw_findStraightPath R (vec3_toArray s) (vec3_toArray t) ps
          (case m of Some n \<Rightarrow> n | None \<Rightarrow> 256) (case opt of Some n \<Rightarrow> n | None \<Rightarrow> 0)
          (engine w)),
       trace := trace w @ [Call_findStraightPath (vec3_toArray s) (vec3_toArray t) ps
          (case m of Some n \<Rightarrow> n | None \<Rightarrow> 256) (case opt of Some n \<Rightarrow> n | None \<Rightarrow> 0)]\<rparr>"
  by (simp add: findStraightPath_def Let_def case_prod_beta)

lemma snd_eqD: "f = (a, b) \<Longrightarrow> b = snd f"
  by simp

text \<open>
  C2. Whenever a sub-operation of \<^verbatim>\<open>computePath\<close> fails, in the order nearest polygon of
  the start, nearest polygon of the end, \<^verbatim>\<open>findPath\<close>, \<^verbatim>\<open>closestPointOnPoly\<close> on the last
  polygon of the corridor (called only when it is not the end polygon) and
  \<^verbatim>\<open>findStraightPath\<close>, the result is \<^verbatim>\<open>success: false\<close>, an error with the status of that
  sub-operation and an empty path, and the world is the one that sub-operation left: no
  later sub-operation has run, the trace has one native call for each sub-operation up to
  the failing one. \<open>r1 ... r5\<close> and \<open>w1 ... w5\<close> name what the sub-operations return.
\<close>

theorem computePath_propagates_first_failure:
  fixes R :: "('e, 's, 'fl) raw_module" and w :: "'e world"
  assumes "flt = (case filter' of Some f \<Rightarrow> f | None \<Rightarrow> defaultFilter q)"
    and "findNearestPoly R q start (Some flt) None w = (r1, w1)"
    and "findNearestPoly R q end' (Some flt) None w1 = (r2, w2)"
    and "findPath R q (nearestRef r1) (nearestRef r2) start end' (Some flt)
           (Some (case maxPathPolys of Some n \<Rightarrow> n | None \<Rightarrow> 256)) w2 = (r3, w3)"
    and "lastPoly = arr_get (polys r3) (arr_size (polys r3) - 1)"
    and "closestPointOnPoly R q lastPoly end' w3 = (r4, w4)"
    and "(if lastPoly \<noteq> nearestRef r2
          then findStraightPath R q start (closestPoint r4) (polys r3) maxStraightPathPoints None w4
          else findStraightPath R q start \<lparr>x = x end', y = y end', z = z end'\<rparr> (polys r3)
                 maxStraightPathPoints None w3) = (r5, w5)"
    and "result = computePath R q start end' filter' maxPathPolys maxStraightPathPoints w"
  shows
    "(\<not> success r1 \<longrightarrow>
        result = (failed ''findNearestPoly for start position failed'' (Some (status r1)), w1)
        \<and> length (trace w1) = length (trace w) + 1)
   \<and> (success r1 \<and> \<not> success r2 \<longrightarrow>
        result = (failed ''findNearestPoly for end position failed'' (Some (status r2)), w2)
        \<and> length (trace w2) = length (trace w) + 2)
   \<and> (success r1 \<and> success r2 \<and> \<not> success r3 \<longrightarrow>
        result = (failed ''findPath unsuccessful'' (Some (status r3)), w3)
        \<and> length (trace w3) = length (trace w) + 3)
   \<and> (success r1 \<and> success r2 \<and> success r3 \<and> 0 < arr_size (polys r3)
        \<and> lastPoly \<noteq> nearestRef r2 \<and> \<not> success r4 \<longrightarrow>
        result = (failed ''no closest point on last polygon found'' (Some (status r4)), w4)
        \<and> length (trace w4) = length (trace w) + 4)
   \<and> (success r1 \<and> success r2 \<and> success r3 \<and> 0 < arr_size (polys r3)
        \<and> (lastPoly \<noteq> nearestRef r2 \<longrightarrow> success r4) \<and> \<not> success r5 \<longrightarrow>
        result = (failed ''findStraightPath unsuccessful'' (Some (status r5)), w5)
        \<and> length (trace w5) = length (trace w) + (if lastPoly \<noteq> nearestRef r2 then 5 else 4))"
proof -
  have t1: "length (trace w1) = length (trace w) + 1"
    using snd_eqD [OF assms(2)] by (simp add: findNearestPoly_world)
  have t2: "length (trace w2) = length (trace w1) + 1"
    using snd_eqD [OF assms(3)] by (simp add: findNearestPoly_world)
  have t3: "length (trace w3) = length (trace w2) + 1"
    using snd_eqD [OF assms(4)] by (simp add: findPath_world)
  have t4: "length (trace w4) = length (trace w3) + 1"
    using snd_eqD [OF assms(6)] by (simp add: closestPointOnPoly_world)
  have t5: "length (trace w5) = (if lastPoly \<noteq> nearestRef r2 then length (trace w4) else length (trace w3)) + 1"
    using snd_eqD [OF assms(7)] by (simp add: findStraightPath_world split: if_splits)
  show ?thesis
    using assms t1 t2 t3 t4 t5
    by (simp add: computePath_def computePath_straight_def Let_def split: if_splits)
qed


text \<open>
  The five failures on the scripted module: each run stops at the failing sub-operation
  with its status, and the trace ends there.
\<close>

lemmas scripted_simps = scripted_def script_ok_def world0_def query0_def origin_def far_def
  raw_array_of_def DT_SUCCESS_def DT_FAILURE_def failed_def
  findNearestPoly_def findPath_def closestPointOnPoly_def findStraightPath_def
  vec3_toArray_def vec3_fromRaw_def

theorem computePath_propagates_first_failure_witness:
  "computePath (scripted (script_ok\<lparr>sc_nearest := (\<lambda>pos. (DT_FAILURE, 0))\<rparr>))
       query0 origin far None None None world0 =
     (\<lparr>success = False,
       error = Some \<lparr>name = ''findNearestPoly for start position failed'',
                     error_status = Some DT_FAILURE\<rparr>,
       path = []\<rparr>,
      world0\<lparr>engine := 1,
        trace := [Call_findNearestPoly [0, 0, 0] [1, 1, 1] (filters world0 0)]\<rparr>)
   \<and> computePath
         (scripted (script_ok\<lparr>sc_nearest :=
            (\<lambda>pos. if pos = [0, 0, 0] then (DT_SUCCESS, 1) else (DT_FAILURE + 8, 0))\<rparr>))
         query0 origin far None None None world0 =
     (\<lparr>success = False,
       error = Some \<lparr>name = ''findNearestPoly for end position failed'',
                     error_status = Some (DT_FAILURE + 8)\<rparr>,
       path = []\<rparr>,
      world0\<lparr>engine := 2,
        trace := [Call_findNearestPoly [0, 0, 0] [1, 1, 1] (filters world0 0),
                  Call_findNearestPoly [9, 0, 9] [1, 1, 1] (filters world0 0)]\<rparr>)
   \<and> computePath (scripted (script_ok\<lparr>sc_path := (DT_FAILURE + 8, [])\<rparr>))
         query0 origin far None None None world0 =
     (\<lparr>success = False,
       error = Some \<lparr>name = ''findPath unsuccessful'', error_status = Some (DT_FAILURE + 8)\<rparr>,
       path = []\<rparr>,
      world0\<lparr>engine := 3,
        trace := [Call_findNearestPoly [0, 0, 0] [1, 1, 1] (filters world0 0),
                  Call_findNearestPoly [9, 0, 9] [1, 1, 1] (filters world0 0),
                  Call_findPath 1 3 [0, 0, 0] [9, 0, 9] (filters world0 0) 256]\<rparr>)
   \<and> computePath (scripted (script_ok\<lparr>sc_closest := (DT_FAILURE + 8, origin)\<rparr>))
         query0 origin far None None None world0 =
     (\<lparr>success = False,
       error = Some \<lparr>name = ''no closest point on last polygon found'',
                     error_status = Some (DT_FAILURE + 8)\<rparr>,
       path = []\<rparr>,
      world0\<lparr>engine := 4,
        trace := [Call_findNearestPoly [0, 0, 0] [1, 1, 1] (filters world0 0),
                  Call_findNearestPoly [9, 0, 9] [1, 1, 1] (filters world0 0),
                  Call_findPath 1 3 [0, 0, 0] [9, 0, 9] (filters world0 0) 256,
                  Call_closestPointOnPoly 2 [9, 0, 9]]\<rparr>)
   \<and> computePath (scripted (script_ok\<lparr>sc_straight := (DT_FAILURE + 8, [], 0)\<rparr>))
         query0 origin far None None None world0 =
     (\<lparr>success = False,
       error = Some \<lparr>name = ''findStraightPath unsuccessful'',
                     error_status = Some (DT_FAILURE + 8)\<rparr>,
       path = []\<rparr>,
      world0\<lparr>engine := 5,
        trace := [Call_findNearestPoly [0, 0, 0] [1, 1, 1] (filters world0 0),
                  Call_findNearestPoly [9, 0, 9] [1, 1, 1] (filters world0 0),
                  Call_findPath 1 3 [0, 0, 0] [9, 0, 9] (filters world0 0) 256,
                  Call_closestPointOnPoly 2 [9, 0, 9],
                  Call_findStraightPath [0, 0, 0] [5, 0, 5] (raw_array_of 0 [1, 2]) 256 0]\<rparr>)"
proof -
  let ?c1 = "Call_findNearestPoly [0, 0, 0] [1, 1, 1] (filters world0 0)"
  let ?c2 = "Call_findNearestPoly [9, 0, 9] [1, 1, 1] (filters world0 0)"
  let ?c3 = "Call_findPath 1 3 [0, 0, 0] [9, 0, 9] (filters world0 0) 256"
  let ?c4 = "Call_closestPointOnPoly 2 [9, 0, 9]"
  let ?r1 = "\<lparr>success = True, status = DT_SUCCESS, nearestRef = 1, nearestPoint = origin,
              isOverPoly = True\<rparr>"
  let ?r2 = "\<lparr>success = True, status = DT_SUCCESS, nearestRef = 3, nearestPoint = far,
              isOverPoly = True\<rparr>"
  let ?r3 = "\<lparr>success = True, status = DT_SUCCESS, polys = raw_array_of 0 [1, 2]\<rparr>"
  let ?r4 = "\<lparr>success = True, status = DT_SUCCESS, closestPoint = \<lparr>x = 5, y = 0, z = 5\<rparr>,
              posOverPoly = False\<rparr>"
  let ?w1 = "world0\<lparr>engine := 1, trace := [?c1]\<rparr>"
  let ?w2 = "world0\<lparr>engine := 2, trace := [?c1, ?c2]\<rparr>"
  let ?w3 = "world0\<lparr>engine := 3, trace := [?c1, ?c2, ?c3]\<rparr>"
  let ?w4 = "world0\<lparr>engine := 4, trace := [?c1, ?c2, ?c3, ?c4]\<rparr>"
  let ?flt = "\<lparr>qf_raw = 0\<rparr>"
  have flt: "?flt = (case None of Some f \<Rightarrow> f | None \<Rightarrow> defaultFilter query0)"
    by (simp add: query0_def)
  have mp: "Some 256 = Some (case None of Some n \<Rightarrow> n | None \<Rightarrow> (256::int))"
    by simp

  let ?R1 = "scripted (script_ok\<lparr>sc_nearest := (\<lambda>pos. (DT_FAILURE, 0))\<rparr>)"
  have a1: "findNearestPoly ?R1 query0 origin (Some ?flt) None world0 =
      (\<lparr>success = False, status = DT_FAILURE, nearestRef = 0, nearestPoint = origin,
        isOverPoly = True\<rparr>, ?w1)"
    by (simp add: scripted_simps)
  have A: "computePath ?R1 query0 origin far None None None world0 =
      (failed ''findNearestPoly for start position failed'' (Some DT_FAILURE), ?w1)"
    using computePath_propagates_first_failure [OF flt a1 surjective_pairing surjective_pairing
        refl surjective_pairing surjective_pairing refl, THEN conjunct1]
    by simp

  let ?R2 = "scripted (script_ok\<lparr>sc_nearest :=
            (\<lambda>pos. if pos = [0, 0, 0] then (DT_SUCCESS, 1) else (DT_FAILURE + 8, 0))\<rparr>)"
  have b1: "findNearestPoly ?R2 query0 origin (Some ?flt) None world0 = (?r1, ?w1)"
    by (simp add: scripted_simps)
  have b2: "findNearestPoly ?R2 query0 far (Some ?flt) None ?w1 =
      (\<lparr>success = False, status = DT_FAILURE + 8, nearestRef = 0, nearestPoint = far,
        isOverPoly = True\<rparr>, ?w2)"
    by (simp add: scripted_simps)
  have B: "computePath ?R2 query0 origin far None None None world0 =
      (failed ''findNearestPoly for end position failed'' (Some (DT_FAILURE + 8)), ?w2)"
    using computePath_propagates_first_failure [OF flt b1 b2 surjective_pairing
        refl surjective_pairing surjective_pairing refl, THEN conjunct2, THEN conjunct1]
    by simp

  let ?R3 = "scripted (script_ok\<lparr>sc_path := (DT_FAILURE + 8, [])\<rparr>)"
  have c1: "findNearestPoly ?R3 query0 origin (Some ?flt) None world0 = (?r1, ?w1)"
    by (simp add: scripted_simps)
  have c2: "findNearestPoly ?R3 query0 far (Some ?flt) None ?w1 = (?r2, ?w2)"
    by (simp add: scripted_simps)
  have c3: "findPath ?R3 query0 (nearestRef ?r1) (nearestRef ?r2) origin far (Some ?flt)
        (Some (case None of Some n \<Rightarrow> n | None \<Rightarrow> 256)) ?w2 =
      (\<lparr>success = False, status = DT_FAILURE + 8, polys = raw_array_of 0 []\<rparr>, ?w3)"
    by (simp add: scripted_simps)
  have C: "computePath ?R3 query0 origin far None None None world0 =
      (failed ''findPath unsuccessful'' (Some (DT_FAILURE + 8)), ?w3)"
    using computePath_propagates_first_failure [OF flt c1 c2 c3
        refl surjective_pairing surjective_pairing refl,
        THEN conjunct2, THEN conjunct2, THEN conjunct1]
    by simp

  let ?R4 = "scripted (script_ok\<lparr>sc_closest := (DT_FAILURE + 8, origin)\<rparr>)"
  have d1: "findNearestPoly ?R4 query0 origin (Some ?flt) None world0 = (?r1, ?w1)"
    by (simp add: scripted_simps)
  have d2: "findNearestPoly ?R4 query0 far (Some ?flt) None ?w1 = (?r2, ?w2)"
    by (simp add: scripted_simps)
  have d3: "findPath ?R4 query0 (nearestRef ?r1) (nearestRef ?r2) origin far (Some ?flt)
        (Some (case None of Some n \<Rightarrow> n | None \<Rightarrow> 256)) ?w2 = (?r3, ?w3)"
    by (simp add: scripted_simps)
  have dl: "(2::nat) = arr_get (polys ?r3) (arr_size (polys ?r3) - 1)"
    by (simp add: raw_array_of_def)
  have d4: "closestPointOnPoly ?R4 query0 2 far ?w3 =
      (\<lparr>success = False, status = DT_FAILURE + 8, closestPoint = origin, posOverPoly = False\<rparr>, ?w4)"
    by (simp add: scripted_simps)
  have D: "computePath ?R4 query0 origin far None None None world0 =
      (failed ''no closest point on last polygon found'' (Some (DT_FAILURE + 8)), ?w4)"
    using computePath_propagates_first_failure [OF flt d1 d2 d3 dl d4 surjective_pairing refl,
        THEN conjunct2, THEN conjunct2, THEN conjunct2, THEN conjunct1]
    by (simp add: raw_array_of_def)

  let ?R5 = "scripted (script_ok\<lparr>sc_straight := (DT_FAILURE + 8, [], 0)\<rparr>)"
  let ?w5 = "world0\<lparr>engine := 5, trace := [?c1, ?c2, ?c3, ?c4,
      Call_findStraightPath [0, 0, 0] [5, 0, 5] (raw_array_of 0 [1, 2]) 256 0]\<rparr>"
  let ?r5 = "\<lparr>success = False, status = DT_FAILURE + 8, straightPath = raw_array_of 0 [],
      straightPathFlags = raw_array_of (0::8 word) [], straightPathRefs = raw_array_of 0 [],
      straightPathCount = 0\<rparr>"
  have e1: "findNearestPoly ?R5 query0 origin (Some ?flt) None world0 = (?r1, ?w1)"
    by (simp add: scripted_simps)
  have e2: "findNearestPoly ?R5 query0 far (Some ?flt) None ?w1 = (?r2, ?w2)"
    by (simp add: scripted_simps)
  have e3: "findPath ?R5 query0 (nearestRef ?r1) (nearestRef ?r2) origin far (Some ?flt)
        (Some (case None of Some n \<Rightarrow> n | None \<Rightarrow> 256)) ?w2 = (?r3, ?w3)"
    by (simp add: scripted_simps)
  have e4: "closestPointOnPoly ?R5 query0 2 far ?w3 = (?r4, ?w4)"
    by (simp add: scripted_simps)
  have e5: "(if (2::nat) \<noteq> nearestRef ?r2
        then findStraightPath ?R5 query0 origin (closestPoint ?r4) (polys ?r3) None None ?w4
        else findStraightPath ?R5 query0 origin \<lparr>x = x far, y = y far, z = z far\<rparr> (polys ?r3)
               None None ?w3) = (?r5, ?w5)"
    by (simp add: scripted_simps)
  have E: "computePath ?R5 query0 origin far None None None world0 =
      (failed ''findStraightPath unsuccessful'' (Some (DT_FAILURE + 8)), ?w5)"
    using computePath_propagates_first_failure [OF flt e1 e2 e3 dl e4 e5 refl,
        THEN conjunct2, THEN conjunct2, THEN conjunct2, THEN conjunct2]
    by (simp add: raw_array_of_def)
  show ?thesis
    using A B C D E by (simp add: failed_def)
qed

lemma path_points:
  "map f (map int [0..<n]) ! i = f (int i)" if "i < n"
  using that by simp

text \<open>
  C10. When \<^verbatim>\<open>computePath\<close> succeeds, its path has \<^verbatim>\<open>straightPathCount\<close> points (none
  when the count is negative), the \<open>i\<close>-th read from the flat buffer at \<open>3i\<close>, \<open>3i + 1\<close>,
  \<open>3i + 2\<close>; and the end handed to \<^verbatim>\<open>findStraightPath\<close>, the last native call, is the
  closest point on the last polygon of the corridor when that polygon is not the end
  polygon, and the requested end otherwise.
\<close>

theorem computePath_success_points:
  fixes R :: "('e, 's, 'fl) raw_module" and w :: "'e world"
  assumes "flt = (case filter' of Some f \<Rightarrow> f | None \<Rightarrow> defaultFilter q)"
    and "findNearestPoly R q start (Some flt) None w = (r1, w1)"
    and "findNearestPoly R q end' (Some flt) None w1 = (r2, w2)"
    and "findPath R q (nearestRef r1) (nearestRef r2) start end' (Some flt)
           (Some (case maxPathPolys of Some n \<Rightarrow> n | None \<Rightarrow> 256)) w2 = (r3, w3)"
    and "lastPoly = arr_get (polys r3) (arr_size (polys r3) - 1)"
    and "closestPointOnPoly R q lastPoly end' w3 = (r4, w4)"
    and "closestEnd = (if lastPoly \<noteq> nearestRef r2 then closestPoint r4 else end')"
    and "findStraightPath R q start closestEnd (polys r3) maxStraightPathPoints None
           (if lastPoly \<noteq> nearestRef r2 then w4 else w3) = (r5, w5)"
    and "result = computePath R q start end' filter' maxPathPolys maxStraightPathPoints w"
    and "success (fst result)"
  shows
    "length (path (fst result)) = nat (straightPathCount r5)
   \<and> (0 \<le> straightPathCount r5 \<longrightarrow> int (length (path (fst result))) = straightPathCount r5)
   \<and> (\<forall>i. i < nat (straightPathCount r5) \<longrightarrow>
         path (fst result) ! i =
           \<lparr>x = arr_get (straightPath r5) (int i * 3),
            y = arr_get (straightPath r5) (int i * 3 + 1),
            z = arr_get (straightPath r5) (int i * 3 + 2)\<rparr>)
   \<and> last (trace (snd result)) =
         Call_findStraightPath (vec3_toArray start) (vec3_toArray closestEnd) (polys r3)
           (case maxStraightPathPoints of Some n \<Rightarrow> n | None \<Rightarrow> 256) 0
   \<and> (lastPoly \<noteq> nearestRef r2 \<longrightarrow>
         closestEnd = closestPoint (fst (closestPointOnPoly R q lastPoly end' w3)))"
proof -
  have e: "\<lparr>x = x end', y = y end', z = z end'\<rparr> = end'"
    by simp
  have ok: "success r1" "success r2" "success r3" "0 < arr_size (polys r3)"
    "lastPoly \<noteq> nearestRef r2 \<longrightarrow> success r4" "success r5"
    using assms
    by (auto simp add: computePath_def computePath_straight_def Let_def failed_def e
        split: if_splits)
  have res: "result =
      (\<lparr>success = True, error = None,
        path = map (\<lambda>i. \<lparr>x = arr_get (straightPath r5) (i * 3),
                         y = arr_get (straightPath r5) (i * 3 + 1),
                         z = arr_get (straightPath r5) (i * 3 + 2)\<rparr>)
                 (map int [0..<nat (straightPathCount r5)])\<rparr>, w5)"
    using assms(1-9) ok
    by (auto simp add: computePath_def computePath_straight_def Let_def e)
  have tr: "trace w5 = trace (if lastPoly \<noteq> nearestRef r2 then w4 else w3) @
      [Call_findStraightPath (vec3_toArray start) (vec3_toArray closestEnd) (polys r3)
        (case maxStraightPathPoints of Some n \<Rightarrow> n | None \<Rightarrow> 256) 0]"
    using snd_eqD [OF assms(8)] by (simp add: findStraightPath_world)
  show ?thesis
    using res tr assms(6,7) by (simp add: path_points)
qed


text \<open>
  Two runs that succeed: the last polygon is not the end polygon and the end moves to
  \<open>(5, 0, 5)\<close>; the last polygon is the end polygon and the end stays \<open>(9, 0, 9)\<close>.
\<close>

theorem computePath_success_points_witness:
  "fst (computePath (scripted script_ok) query0 origin far None None None world0) =
     \<lparr>success = True, error = None,
      path = [\<lparr>x = 0, y = 0, z = 0\<rparr>, \<lparr>x = 5, y = 0, z = 5\<rparr>]\<rparr>
   \<and> last (trace (snd (computePath (scripted script_ok) query0 origin far None None None world0))) =
       Call_findStraightPath [0, 0, 0] [5, 0, 5] (raw_array_of 0 [1, 2]) 256 0
   \<and> fst (computePath
         (scripted (script_ok\<lparr>sc_nearest := (\<lambda>pos. (DT_SUCCESS, if pos = [0, 0, 0] then 1 else 2))\<rparr>))
         query0 origin far None None (Some 8) world0) =
     \<lparr>success = True, error = None,
      path = [\<lparr>x = 0, y = 0, z = 0\<rparr>, \<lparr>x = 5, y = 0, z = 5\<rparr>]\<rparr>
   \<and> last (trace (snd (computePath
         (scripted (script_ok\<lparr>sc_nearest := (\<lambda>pos. (DT_SUCCESS, if pos = [0, 0, 0] then 1 else 2))\<rparr>))
         query0 origin far None None (Some 8) world0))) =
       Call_findStraightPath [0, 0, 0] [9, 0, 9] (raw_array_of 0 [1, 2]) 8 0"
proof -
  let ?c1 = "Call_findNearestPoly [0, 0, 0] [1, 1, 1] (filters world0 0)"
  let ?c2 = "Call_findNearestPoly [9, 0, 9] [1, 1, 1] (filters world0 0)"
  let ?r1 = "\<lparr>success = True, status = DT_SUCCESS, nearestRef = 1, nearestPoint = origin,
              isOverPoly = True\<rparr>"
  let ?r3 = "\<lparr>success = True, status = DT_SUCCESS, polys = raw_array_of 0 [1, 2]\<rparr>"
  let ?r4 = "\<lparr>success = True, status = DT_SUCCESS, closestPoint = \<lparr>x = 5, y = 0, z = 5\<rparr>,
              posOverPoly = False\<rparr>"
  let ?w1 = "world0\<lparr>engine := 1, trace := [?c1]\<rparr>"
  let ?w2 = "world0\<lparr>engine := 2, trace := [?c1, ?c2]\<rparr>"
  let ?flt = "\<lparr>qf_raw = 0\<rparr>"
  have flt: "?flt = (case None of Some f \<Rightarrow> f | None \<Rightarrow> defaultFilter query0)"
    by (simp add: query0_def)
  have dl: "(2::nat) = arr_get (polys ?r3) (arr_size (polys ?r3) - 1)"
    by (simp add: raw_array_of_def)

  let ?R = "scripted script_ok"
  let ?r2 = "\<lparr>success = True, status = DT_SUCCESS, nearestRef = 3, nearestPoint = far,
              isOverPoly = True\<rparr>"
  let ?c3 = "Call_findPath 1 3 [0, 0, 0] [9, 0, 9] (filters world0 0) 256"
  let ?c4 = "Call_closestPointOnPoly 2 [9, 0, 9]"
  let ?c5 = "Call_findStraightPath [0, 0, 0] [5, 0, 5] (raw_array_of 0 [1, 2]) 256 0"
  let ?w3 = "world0\<lparr>engine := 3, trace := [?c1, ?c2, ?c3]\<rparr>"
  let ?w4 = "world0\<lparr>engine := 4, trace := [?c1, ?c2, ?c3, ?c4]\<rparr>"
  let ?w5 = "world0\<lparr>engine := 5, trace := [?c1, ?c2, ?c3, ?c4, ?c5]\<rparr>"
  let ?r5 = "\<lparr>success = True, status = DT_SUCCESS,
      straightPath = raw_array_of 0 [0, 0, 0, 5, 0, 5],
      straightPathFlags = raw_array_of (0::8 word) [], straightPathRefs = raw_array_of 0 [],
      straightPathCount = 2\<rparr>"
  let ?res = "computePath ?R query0 origin far None None None world0"
  have a1: "findNearestPoly ?R query0 origin (Some ?flt) None world0 = (?r1, ?w1)"
    by (simp add: scripted_simps)
  have a2: "findNearestPoly ?R query0 far (Some ?flt) None ?w1 = (?r2, ?w2)"
    by (simp add: scripted_simps)
  have a3: "findPath ?R query0 (nearestRef ?r1) (nearestRef ?r2) origin far (Some ?flt)
        (Some (case None of Some n \<Rightarrow> n | None \<Rightarrow> 256)) ?w2 = (?r3, ?w3)"
    by (simp add: scripted_simps)
  have a4: "closestPointOnPoly ?R query0 2 far ?w3 = (?r4, ?w4)"
    by (simp add: scripted_simps)
  have ce: "\<lparr>x = 5, y = 0, z = 5\<rparr> = (if (2::nat) \<noteq> nearestRef ?r2 then closestPoint ?r4 else far)"
    by simp
  have a5: "findStraightPath ?R query0 origin \<lparr>x = 5, y = 0, z = 5\<rparr> (polys ?r3) None None
        (if (2::nat) \<noteq> nearestRef ?r2 then ?w4 else ?w3) = (?r5, ?w5)"
    by (simp add: scripted_simps)
  have res: "?res = (\<lparr>success = True, error = None,
      path = [\<lparr>x = 0, y = 0, z = 0\<rparr>, \<lparr>x = 5, y = 0, z = 5\<rparr>]\<rparr>, ?w5)"
    using a1 a2 a3 a4 a5
    by (simp add: computePath_def computePath_straight_def Let_def raw_array_of_def
        query0_def upt_conv_Cons)
  have ok: "success (fst ?res)"
    by (simp add: res)
  note T = computePath_success_points [OF flt a1 a2 a3 dl a4 ce a5 refl ok]
  have A: "fst ?res = \<lparr>success = True, error = None,
      path = [\<lparr>x = 0, y = 0, z = 0\<rparr>, \<lparr>x = 5, y = 0, z = 5\<rparr>]\<rparr>"
    by (simp add: res)
  have A': "last (trace (snd ?res)) = ?c5"
    using T a4 by (simp add: vec3_toArray_def origin_def)

  let ?S = "scripted (script_ok\<lparr>sc_nearest := (\<lambda>pos. (DT_SUCCESS, if pos = [0, 0, 0] then 1 else 2))\<rparr>)"
  let ?s2 = "\<lparr>success = True, status = DT_SUCCESS, nearestRef = 2, nearestPoint = far,
              isOverPoly = True\<rparr>"
  let ?d3 = "Call_findPath 1 2 [0, 0, 0] [9, 0, 9] (filters world0 0) 256"
  let ?d5 = "Call_findStraightPath [0, 0, 0] [9, 0, 9] (raw_array_of 0 [1, 2]) 8 0"
  let ?v3 = "world0\<lparr>engine := 3, trace := [?c1, ?c2, ?d3]\<rparr>"
  let ?v5 = "world0\<lparr>engine := 4, trace := [?c1, ?c2, ?d3, ?d5]\<rparr>"
  let ?res' = "computePath ?S query0 origin far None None (Some 8) world0"
  have b1: "findNearestPoly ?S query0 origin (Some ?flt) None world0 = (?r1, ?w1)"
    by (simp add: scripted_simps)
  have b2: "findNearestPoly ?S query0 far (Some ?flt) None ?w1 = (?s2, ?w2)"
    by (simp add: scripted_simps)
  have b3: "findPath ?S query0 (nearestRef ?r1) (nearestRef ?s2) origin far (Some ?flt)
        (Some (case None of Some n \<Rightarrow> n | None \<Rightarrow> 256)) ?w2 = (?r3, ?v3)"
    by (simp add: scripted_simps)
  have cf: "far = (if (2::nat) \<noteq> nearestRef ?s2
      then closestPoint (fst (closestPointOnPoly ?S query0 2 far ?v3)) else far)"
    by simp
  have b5: "findStraightPath ?S query0 origin far (polys ?r3) (Some 8) None
        (if (2::nat) \<noteq> nearestRef ?s2 then snd (closestPointOnPoly ?S query0 2 far ?v3) else ?v3) =
      (?r5, ?v5)"
    by (simp add: scripted_simps)
  have res': "?res' = (\<lparr>success = True, error = None,
      path = [\<lparr>x = 0, y = 0, z = 0\<rparr>, \<lparr>x = 5, y = 0, z = 5\<rparr>]\<rparr>, ?v5)"
    using b1 b2 b3 b5
    by (simp add: computePath_def computePath_straight_def Let_def raw_array_of_def
        query0_def far_def upt_conv_Cons)
  have ok': "success (fst ?res')"
    by (simp add: res')
  note T' = computePath_success_points [OF flt b1 b2 b3 dl surjective_pairing cf b5 refl ok']
  have B: "fst ?res' = \<lparr>success = True, error = None,
      path = [\<lparr>x = 0, y = 0, z = 0\<rparr>, \<lparr>x = 5, y = 0, z = 5\<rparr>]\<rparr>"
    by (simp add: res')
  have B': "last (trace (snd ?res')) = ?d5"
    using T' by (simp add: far_def vec3_toArray_def origin_def)
  show ?thesis
    using A A' B B' by (simp add: vec3_toArray_def origin_def)
qed

lemma findPolysAroundCircle_world:
  "snd (findPolysAroundCircle R q r c rad f n w) =
     w\<lparr>engine := snd (raw_findPolysAroundCircle R r (vec3_toArray c) rad
          (filters w (qf_raw (case f of Some f' \<Rightarrow> f' | None \<Rightarrow> defaultFilter q)))
          (case n of Some k \<Rightarrow> k | None \<Rightarrow> 256) (engine w)),
       trace := trace w @ [Call_findPolysAroundCircle r (vec3_toArray c) rad
          (filters w (qf_raw (case f of Some f' \<Rightarrow> f' | None \<Rightarrow> defaultFilter q)))
          (case n of Some k \<Rightarrow> k | None \<Rightarrow> 256)]\<rparr>"
  by (simp add: findPolysAroundCircle_def Let_def case_prod_beta)

lemma queryPolygons_world:
  "snd (queryPolygons R q c h f n w) =
     w\<lparr>engine := snd (raw_queryPolygons R (vec3_toArray c) (vec3_toArray h)
          (filters w (qf_raw (case f of Some f' \<Rightarrow> f' | None \<Rightarrow> defaultFilter q)))
          (case n of Some k \<Rightarrow> k | None \<Rightarrow> 256) (engine w)),
       trace := trace w @ [Call_queryPolygons (vec3_toArray c) (vec3_toArray h)
          (filters w (qf_raw (case f of Some f' \<Rightarrow> f' | None \<Rightarrow> defaultFilter q)))
          (case n of Some k \<Rightarrow> k | None \<Rightarrow> 256)]\<rparr>"
  by (simp add: queryPolygons_def Let_def case_prod_beta)

lemma getClosestPoint_world:
  "snd (getClosestPoint R q p f h w) =
     w\<lparr>engine := snd (raw_getClosestPoint R (vec3_toArray p)
          (vec3_toArray (case h of Some h' \<Rightarrow> h' | None \<Rightarrow> defaultQueryHalfExtents q))
          (filters w (case f of Some f' \<Rightarrow> qf_raw f' | None \<Rightarrow> qf_raw (defaultFilter q)))
          (engine w)),
       trace := trace w @ [Call_getClosestPoint (vec3_toArray p)
          (vec3_toArray (case h of Some h' \<Rightarrow> h' | None \<Rightarrow> defaultQueryHalfExtents q))
          (filters w (case f of Some f' \<Rightarrow> qf_raw f' | None \<Rightarrow> qf_raw (defaultFilter q)))]\<rparr>"
  by (simp add: getClosestPoint_def Let_def case_prod_beta)

lemma getRandomPointAround_world:
  "snd (getRandomPointAround R q p rad f h w) =
     w\<lparr>engine := snd (raw_getRandomPointAround R (vec3_toArray p) rad
          (vec3_toArray (case h of Some h' \<Rightarrow> h' | None \<Rightarrow> defaultQueryHalfExtents q))
          (filters w (case f of Some f' \<Rightarrow> qf_raw f' | None \<Rightarrow> qf_raw (defaultFilter q)))
          (engine w)),
       trace := trace w @ [Call_getRandomPointAround (vec3_toArray p) rad
          (vec3_toArray (case h of Some h' \<Rightarrow> h' | None \<Rightarrow> defaultQueryHalfExtents q))
          (filters w (case f of Some f' \<Rightarrow> qf_raw f' | None \<Rightarrow> qf_raw (defaultFilter q)))]\<rparr>"
  by (simp add: getRandomPointAround_def Let_def case_prod_beta)

lemma moveAlongSurface_world:
  "snd (moveAlongSurface R q r s t f n w) =
     w\<lparr>engine := snd (raw_moveAlongSurface R r (vec3_toArray s) (vec3_toArray t)
          (filters w (case f of Some f' \<Rightarrow> qf_raw f' | None \<Rightarrow> qf_raw (defaultFilter q)))
          (case n of Some k \<Rightarrow> k | None \<Rightarrow> 256) (engine w)),
       trace := trace w @ [Call_moveAlongSurface r (vec3_toArray s) (vec3_toArray t)
          (filters w (case f of Some f' \<Rightarrow> qf_raw f' | None \<Rightarrow> qf_raw (defaultFilter q)))
          (case n of Some k \<Rightarrow> k | None \<Rightarrow> 256)]\<rparr>"
  by (simp add: moveAlongSurface_def Let_def case_prod_beta)

lemma findRandomPoint_world:
  "snd (findRandomPoint R q f w) =
     w\<lparr>engine := snd (raw_findRandomPoint R
          (filters w (case f of Some f' \<Rightarrow> qf_raw f' | None \<Rightarrow> qf_raw (defaultFilter q)))
          (engine w)),
       trace := trace w @ [Call_findRandomPoint
          (filters w (case f of Some f' \<Rightarrow> qf_raw f' | None \<Rightarrow> qf_raw (defaultFilter q)))]\<rparr>"
  by (simp add: findRandomPoint_def Let_def case_prod_beta)

lemma getPolyHeight_world:
  "snd (getPolyHeight R q r p w) =
     w\<lparr>engine := snd (raw_getPolyHeight R r (vec3_toArray p) (engine w)),
       trace := trace w @ [Call_getPolyHeight r (vec3_toArray p)]\<rparr>"
  by (simp add: getPolyHeight_def Let_def case_prod_beta)

lemmas world_simps = findNearestPoly_world findPolysAroundCircle_world queryPolygons_world
  closestPointOnPoly_world getClosestPoint_world getRandomPointAround_world
  moveAlongSurface_world findRandomPoint_world getPolyHeight_world findPath_world
  findStraightPath_world

lemma computePath_straight_frame:
  "filters (snd (computePath_straight R q s t ps m w)) = filters w"
  by (simp add: computePath_straight_def Let_def case_prod_beta world_simps)

lemma computePath_frame:
  "filters (snd (computePath R q s t f mp ms w)) = filters w"
  by (simp add: computePath_def Let_def case_prod_beta world_simps computePath_straight_frame)

text \<open>
  No method of \<^verbatim>\<open>NavMeshQuery\<close> calls a setter of a filter: the store of filters after a
  method is the store before it, as far as the wrapper goes. The native method is handed
  the value of the filter here, so this says nothing of what the native code does
  through the handle it is given.
\<close>

lemma wrapper_calls_no_filter_setter:
  "filters (snd (findNearestPoly R q p f h w)) = filters w
   \<and> filters (snd (findPolysAroundCircle R q r c rad f n w)) = filters w
   \<and> filters (snd (queryPolygons R q c he f n w)) = filters w
   \<and> filters (snd (findPath R q a b s t f n w)) = filters w
   \<and> filters (snd (findStraightPath R q s t ps n opt w)) = filters w
   \<and> filters (snd (moveAlongSurface R q r s t f n w)) = filters w
   \<and> filters (snd (findRandomPoint R q f w)) = filters w
   \<and> filters (snd (getClosestPoint R q p f h w)) = filters w
   \<and> filters (snd (getRandomPointAround R q p rad f h w)) = filters w
   \<and> filters (snd (closestPointOnPoly R q r p w)) = filters w
   \<and> filters (snd (getPolyHeight R q r p w)) = filters w
   \<and> filters (snd (computePath R q s t f mp ms w)) = filters w"
  by (simp add: world_simps computePath_frame)



lemma computePath_straight_error:
  "success (fst (computePath_straight R q s t ps m w)) \<longleftrightarrow>
     error (fst (computePath_straight R q s t ps m w)) = None"
  by (simp add: computePath_straight_def Let_def case_prod_beta failed_def)

lemma computePath_error:
  "success (fst (computePath R q s t f mp ms w)) \<longleftrightarrow>
     error (fst (computePath R q s t f mp ms w)) = None"
  by (simp add: computePath_def Let_def case_prod_beta failed_def computePath_straight_error)







lemma NavMeshQuery_new_filter:
  "filters (snd (NavMeshQuery_new R v w0)) (qf_raw (defaultFilter (fst (NavMeshQuery_new R v w0)))) =
     (new_dtQueryFilter R)\<lparr>m_includeFlags := 0xffff, m_excludeFlags := 0\<rparr>"
  by (simp add: NavMeshQuery_new_def QueryFilter_new_def set_includeFlags_def
      set_excludeFlags_def Let_def split: sum.splits prod.splits)








lemma getAreaCost_fold:
  assumes "raw_getAreaCost R = dt_getAreaCost oob_get"
    and "raw_setAreaCost R = dt_setAreaCost oob_set"
    and "0 \<le> j" and "j < 64"
    and "list_all (\<lambda>(i, c). 0 \<le> i \<and> i < 64 \<and> i \<noteq> j) ops"
  shows "getAreaCost R f j (fold (\<lambda>(i, c) w. snd (setAreaCost R f i c w)) ops w) = getAreaCost R f j w"
  using assms(5)
proof (induction ops arbitrary: w)
  case Nil
  then show ?case by simp
next
  case (Cons a ops)
  obtain i c where a: "a = (i, c)"
    by (cases a)
  have "getAreaCost R f j (snd (setAreaCost R f i c w)) = getAreaCost R f j w"
    using Cons.prems assms(1-4) a
    by (auto simp add: getAreaCost_def setAreaCost_def dt_getAreaCost_def dt_setAreaCost_def
        DT_MAX_AREAS_def)
  then show ?case
    using Cons a by simp
qed

lemma with_spec_filter_fields:
  "new_dtQueryFilter (with_spec_filter R og os) = dtQueryFilter_default"
  "raw_getAreaCost (with_spec_filter R og os) = dt_getAreaCost og"
  "raw_setAreaCost (with_spec_filter R og os) = dt_setAreaCost os"
  by (simp_all add: with_spec_filter_def)

text \<open>
  C8, amended. \<^verbatim>\<open>setAreaCost\<close> validates nothing and reports nothing, for every id: id and
  cost go to the native setter as they are, the method returns nothing and throws only
  when the native setter throws. With the filter of the spec behind the wrapper, every
  id in \<open>0..63\<close> that has not been set reads \<open>1\<close>: on the default filter of a new
  \<^verbatim>\<open>NavMeshQuery\<close>, and on a new filter after any sequence of writes to other ids of the
  range.
\<close>

theorem setAreaCost_reports_nothing:
  fixes R :: "('e, 's, 'fl) raw_module"
  shows
    "run_setAreaCost R f i cost w =
       (if raw_throws R (SetAreaCost (filters w (qf_raw f)) i cost) (engine w) then Inl NativeError
        else Inr ((), w\<lparr>filters :=
               (filters w)(qf_raw f := raw_setAreaCost R (filters w (qf_raw f)) i cost)\<rparr>))
   \<and> (0 \<le> j \<and> j < 64 \<longrightarrow>
        getAreaCost (with_spec_filter R og os)
          (defaultFilter (fst (NavMeshQuery_new (with_spec_filter R og os) v w))) j
          (snd (NavMeshQuery_new (with_spec_filter R og os) v w)) = 1)
   \<and> (0 \<le> j \<and> j < 64 \<and> list_all (\<lambda>(i, c). 0 \<le> i \<and> i < 64 \<and> i \<noteq> j) ops \<longrightarrow>
        getAreaCost (with_spec_filter R og os)
          (fst (QueryFilter_new (with_spec_filter R og os) None w)) j
          (fold (\<lambda>(i, c) w'.
                   snd (setAreaCost (with_spec_filter R og os)
                          (fst (QueryFilter_new (with_spec_filter R og os) None w)) i c w'))
             ops (snd (QueryFilter_new (with_spec_filter R og os) None w))) = 1)"
proof -
  let ?R = "with_spec_filter R og os"
  have new: "0 \<le> j \<and> j < 64 \<longrightarrow>
      getAreaCost ?R (fst (QueryFilter_new ?R None w)) j (snd (QueryFilter_new ?R None w)) = 1"
    by (simp add: getAreaCost_def QueryFilter_new_def dt_getAreaCost_def dtQueryFilter_default_def
        DT_MAX_AREAS_def with_spec_filter_fields)
  have q: "0 \<le> j \<and> j < 64 \<longrightarrow>
      getAreaCost ?R (defaultFilter (fst (NavMeshQuery_new ?R v w))) j (snd (NavMeshQuery_new ?R v w)) = 1"
    using NavMeshQuery_new_filter [of ?R v w]
    by (simp add: getAreaCost_def dt_getAreaCost_def dtQueryFilter_default_def
        DT_MAX_AREAS_def with_spec_filter_fields)
  have run: "run_setAreaCost R f i cost w =
       (if raw_throws R (SetAreaCost (filters w (qf_raw f)) i cost) (engine w) then Inl NativeError
        else Inr ((), w\<lparr>filters :=
               (filters w)(qf_raw f := raw_setAreaCost R (filters w (qf_raw f)) i cost)\<rparr>))"
    by (simp add: run_setAreaCost_def setAreaCost_def)
  show ?thesis
    using new q run
      getAreaCost_fold [OF with_spec_filter_fields(2) with_spec_filter_fields(3), of j ops R og os]
    by simp
qed

text \<open>
  \<open>setAreaCost(3, 5/2)\<close> returns nothing and writes slot 3; area 63 of the default filter
  of a new \<^verbatim>\<open>NavMeshQuery\<close> costs \<open>1\<close>; on a new filter, after \<open>setAreaCost(3, 5/2)\<close> and
  \<open>setAreaCost(10, 4)\<close>, area 5 still costs \<open>1\<close>.
\<close>

theorem setAreaCost_reports_nothing_witness:
  "run_setAreaCost spec_filter_module \<lparr>qf_raw = 0\<rparr> 3 (5 / 2) world0 =
     Inr ((), world0\<lparr>filters := (filters world0)
            (0 := \<lparr>m_includeFlags = 1, m_excludeFlags = 2, m_areaCost = (\<lambda>i. 1)(3 := 5 / 2)\<rparr>)\<rparr>)
   \<and> getAreaCost spec_filter_module
        (defaultFilter (fst (NavMeshQuery_new spec_filter_module (Inl ()) world0))) 63
        (snd (NavMeshQuery_new spec_filter_module (Inl ()) world0)) = 1
   \<and> getAreaCost spec_filter_module (fst (QueryFilter_new spec_filter_module None world0)) 5
        (fold (\<lambda>(i, c) w'.
                 snd (setAreaCost spec_filter_module
                        (fst (QueryFilter_new spec_filter_module None world0)) i c w'))
           [(3, 5 / 2), (10, 4)] (snd (QueryFilter_new spec_filter_module None world0))) = 1"
proof -
  note T = setAreaCost_reports_nothing [where R = "scripted script_ok" and og = "\<lambda>f i. 0"
      and os = "\<lambda>f i cost. f" and w = world0, folded spec_filter_module_def]
  have nt: "\<not> raw_throws spec_filter_module c e" for c e
    by (simp add: spec_filter_module_def with_spec_filter_def scripted_def)
  have st: "raw_setAreaCost spec_filter_module (filters world0 0) 3 (5 / 2) =
      \<lparr>m_includeFlags = 1, m_excludeFlags = 2, m_areaCost = (\<lambda>i. 1)(3 := 5 / 2)\<rparr>"
    by (simp add: spec_filter_module_def with_spec_filter_def dt_setAreaCost_def DT_MAX_AREAS_def
        world0_def)
  have 1: "run_setAreaCost spec_filter_module \<lparr>qf_raw = 0\<rparr> 3 (5 / 2) world0 =
     Inr ((), world0\<lparr>filters := (filters world0)
            (0 := \<lparr>m_includeFlags = 1, m_excludeFlags = 2, m_areaCost = (\<lambda>i. 1)(3 := 5 / 2)\<rparr>)\<rparr>)"
    using setAreaCost_reports_nothing [where R = spec_filter_module and f = "\<lparr>qf_raw = 0\<rparr>"
        and i = 3 and cost = "5 / 2" and w = world0] nt st
    by simp
  have 2: "getAreaCost spec_filter_module
        (defaultFilter (fst (NavMeshQuery_new spec_filter_module (Inl ()) world0))) 63
        (snd (NavMeshQuery_new spec_filter_module (Inl ()) world0)) = 1"
    using T [where j = 63 and v = "Inl ()"] by simp
  have 3: "getAreaCost spec_filter_module (fst (QueryFilter_new spec_filter_module None world0)) 5
        (fold (\<lambda>(i, c) w'.
                 snd (setAreaCost spec_filter_module
                        (fst (QueryFilter_new spec_filter_module None world0)) i c w'))
           [(3, 5 / 2), (10, 4)] (snd (QueryFilter_new spec_filter_module None world0))) = 1"
    using T [where j = 5 and ops = "[(3, 5 / 2), (10, 4)]"] by simp
  show ?thesis
    using 1 2 3 by simp
qed

text \<open>
  C8, as stated, fails: \<^verbatim>\<open>setAreaCost(64, 2)\<close> reports no error. The call returns nothing
  and throws nothing, and with a native setter that writes the slot it is given the write
  is accepted: slot 64 then reads \<open>2\<close>.
\<close>

theorem setAreaCost_out_of_range_no_error:
  "run_setAreaCost (scripted script_ok) \<lparr>qf_raw = 0\<rparr> 64 2 world0 =
     Inr ((), world0\<lparr>filters := (filters world0)
            (0 := \<lparr>m_includeFlags = 1, m_excludeFlags = 2, m_areaCost = (\<lambda>i. 1)(64 := 2)\<rparr>)\<rparr>)
   \<and> explicit_status (Ret_setAreaCost (fst (setAreaCost (scripted script_ok) \<lparr>qf_raw = 0\<rparr> 64 2 world0))
      :: (32 word, 8 word) returned) = None
   \<and> explicit_success (Ret_setAreaCost (fst (setAreaCost (scripted script_ok) \<lparr>qf_raw = 0\<rparr> 64 2 world0))
      :: (32 word, 8 word) returned) = None
   \<and> getAreaCost (scripted script_ok) \<lparr>qf_raw = 0\<rparr> 64
        (snd (setAreaCost (scripted script_ok) \<lparr>qf_raw = 0\<rparr> 64 2 world0)) = 2"
  by (simp add: run_setAreaCost_def setAreaCost_def getAreaCost_def scripted_def world0_def)

section \<open>Properties of the engine of the spec behind the wrapper\<close>

subsection \<open>Range queries\<close>

lemma length_array: "length (array f n) = nat n"
  by (simp add: array_def)

lemma le_nat_int: "k \<le> nat n \<Longrightarrow> 0 \<le> n \<Longrightarrow> int k \<le> n"
  by linarith

lemma detour_fields:
  "statusSucceed (detour R) = dt_statusSucceed"
  "raw_queryPolygons (detour R) = (\<lambda>c he f maxPolys e.
          (let (st, refs) =
                 dt_queryPolygons (e_mesh e) (vec3_fromArray c) (vec3_fromArray he) f maxPolys
           in ((st, written maxPolys 0 refs, int (length refs)), e)))"
  "raw_findPolysAroundCircle (detour R) = (\<lambda>startRef c radius f maxPolys e.
          (let (st, refs, parents, cost, pool) =
                 dt_findPolysAroundCircle (e_mesh e) (e_maxNodes e) startRef (vec3_fromArray c)
                   radius f maxPolys
           in ((st, written maxPolys 0 refs, written maxPolys 0 parents, cost, int (length refs)),
               e\<lparr>e_nodePool := pool\<rparr>)))"
  "raw_findPath (detour R) = (\<lambda>startRef endRef s t f maxPath e.
          (let (st, corridor, pool) =
                 dt_findPath (e_mesh e) (e_maxNodes e) startRef endRef (vec3_fromArray s)
                   (vec3_fromArray t) f maxPath
           in ((st, raw_array_of 0 corridor), e\<lparr>e_nodePool := pool\<rparr>)))"
  "raw_findStraightPath (detour R) = (\<lambda>s t pth maxStraightPath options e.
          (let (st, vs) =
                 dt_findStraightPath (e_mesh e) (vec3_fromArray s) (vec3_fromArray t)
                   (array (arr_get pth) (arr_size pth)) maxStraightPath options
           in ((st,
                written (maxStraightPath * 3) 0 (concat (map (\<lambda>(p, fl, r). [x p, y p, z p]) vs)),
                written maxStraightPath Normal (map (\<lambda>(p, fl, r). fl) vs),
                written maxStraightPath 0 (map (\<lambda>(p, fl, r). r) vs),
                int (length vs)), e)))"
  by (simp_all add: detour_def)

lemma dt_queryPolygons_count:
  "length (snd (dt_queryPolygons m c he f n)) \<le> nat n"
  by (simp add: dt_queryPolygons_def Let_def)

lemma dt_findPolysAroundCircle_count:
  "length (fst (snd (dt_findPolysAroundCircle m k r c rad f n))) \<le> nat n"
  "length (fst (snd (snd (dt_findPolysAroundCircle m k r c rad f n)))) =
     length (fst (snd (dt_findPolysAroundCircle m k r c rad f n)))"
  by (simp_all add: dt_findPolysAroundCircle_def Let_def case_prod_beta)

lemma range_lengths:
  "length (polyRefs (fst (queryPolygons R q c he f n w))) =
     nat (polyCount (fst (queryPolygons R q c he f n w)))"
  "length (resultRefs (fst (findPolysAroundCircle R q r c rad f n w))) =
     nat (resultCount (fst (findPolysAroundCircle R q r c rad f n w)))"
  "length (resultParents (fst (findPolysAroundCircle R q r c rad f n w))) =
     nat (resultCount (fst (findPolysAroundCircle R q r c rad f n w)))"
  by (simp_all add: queryPolygons_def findPolysAroundCircle_def Let_def case_prod_beta length_array)

text \<open>
  C5. With the engine of the spec behind the wrapper, and a bound \<^verbatim>\<open>maxPolys\<close> that is not
  negative (256 when the caller gives none): the count returned by \<^verbatim>\<open>queryPolygons\<close> and
  by \<^verbatim>\<open>findPolysAroundCircle\<close> is between 0 and the bound, and the arrays of references
  returned, and the array of parents of the circle query, have exactly that many
  entries, however many polygons match.
\<close>

theorem range_queries_bounded:
  fixes R :: "(dtEngine, dt_status, vflag) raw_module"
  assumes "bound = (case maxPolys of Some n \<Rightarrow> n | None \<Rightarrow> 256)"
    and "0 \<le> bound"
    and "box = fst (queryPolygons (detour R) q center he filter' maxPolys w)"
    and "circle = fst (findPolysAroundCircle (detour R) q startRef center radius filter' maxPolys w)"
  shows
    "0 \<le> polyCount box \<and> polyCount box \<le> bound
   \<and> int (length (polyRefs box)) = polyCount box
   \<and> 0 \<le> resultCount circle \<and> resultCount circle \<le> bound
   \<and> int (length (resultRefs circle)) = resultCount circle
   \<and> int (length (resultParents circle)) = resultCount circle"
proof -
  let ?f = "filters w (qf_raw (case filter' of Some f \<Rightarrow> f | None \<Rightarrow> defaultFilter q))"
  let ?m = "e_mesh (engine w)"
  have b: "polyCount box =
      int (length (snd (dt_queryPolygons ?m (vec3_fromArray (vec3_toArray center))
        (vec3_fromArray (vec3_toArray he)) ?f bound)))"
    using assms(1,3)
    by (simp add: queryPolygons_def detour_fields Let_def case_prod_beta)
  have b': "length (polyRefs box) = nat (polyCount box)"
    unfolding assms(3) by (rule range_lengths)
  have c: "resultCount circle =
      int (length (fst (snd (dt_findPolysAroundCircle ?m (e_maxNodes (engine w)) startRef
        (vec3_fromArray (vec3_toArray center)) radius ?f bound))))"
    using assms(1,4)
    by (simp add: findPolysAroundCircle_def detour_fields Let_def case_prod_beta)
  have c': "length (resultRefs circle) = nat (resultCount circle)"
      "length (resultParents circle) = nat (resultCount circle)"
    unfolding assms(4) by (rule range_lengths)+
  have "polyCount box \<le> bound"
    unfolding b by (rule le_nat_int [OF dt_queryPolygons_count assms(2)])
  moreover have "resultCount circle \<le> bound"
    unfolding c by (rule le_nat_int [OF dt_findPolysAroundCircle_count(1) assms(2)])
  moreover have "0 \<le> polyCount box" "0 \<le> resultCount circle"
    by (simp_all add: b c)
  ultimately show ?thesis
    using b' c' by simp
qed

subsection \<open>The engine on the 2\<open>\<times>\<close>2 mesh\<close>

lemmas ref_simps = getTileAndPoly_def decodePolyIdTile_def decodePolyIdSalt_def decodePolyIdPoly_def

lemma grid_polys:
  "getTileAndPoly grid_mesh 64 = Some (grid_tile, quad 0 0 (Some 0))"
  "getTileAndPoly grid_mesh 65 = Some (grid_tile, quad 1 0 (Some 2))"
  "getTileAndPoly grid_mesh 66 = Some (grid_tile, quad 0 1 (Some 4))"
  "getTileAndPoly grid_mesh 67 = Some (grid_tile, quad 1 1 (Some 6))"
  by (simp_all add: ref_simps grid_mesh_def grid_tile_def)

lemma grid_passable:
  "passable grid_mesh dtQueryFilter_default 64"
  "passable grid_mesh dtQueryFilter_default 65"
  "passable grid_mesh dtQueryFilter_default 66"
  "passable grid_mesh dtQueryFilter_default 67"
  by (simp_all add: passable_def grid_polys passFilter_def dtQueryFilter_default_def quad_def)

lemma grid_links:
  "polyLinks grid_tile (quad 0 0 (Some 0)) = [lnk 65 2 (Some 1), lnk 66 1 None]"
  "polyLinks grid_tile (quad (Suc 0) 0 (Some 2)) = [lnk 64 0 (Some 3), lnk 67 1 None]"
  "polyLinks grid_tile (quad 0 (Suc 0) (Some 4)) = [lnk 64 3 (Some 5), lnk 67 2 None]"
  "polyLinks grid_tile (quad (Suc 0) (Suc 0) (Some 6)) = [lnk 66 0 (Some 7), lnk 65 3 None]"
  by (simp_all add: polyLinks_def grid_tile_def quad_def lnk_def)

lemma grid_verts:
  "polyVerts grid_tile (quad 0 0 l) =
     [\<lparr>x = 0, y = 0, z = 0\<rparr>, \<lparr>x = 0, y = 0, z = 1\<rparr>, \<lparr>x = 1, y = 0, z = 1\<rparr>, \<lparr>x = 1, y = 0, z = 0\<rparr>]"
  "polyVerts grid_tile (quad (Suc 0) 0 l) =
     [\<lparr>x = 1, y = 0, z = 0\<rparr>, \<lparr>x = 1, y = 0, z = 1\<rparr>, \<lparr>x = 2, y = 0, z = 1\<rparr>, \<lparr>x = 2, y = 0, z = 0\<rparr>]"
  "polyVerts grid_tile (quad 0 (Suc 0) l) =
     [\<lparr>x = 0, y = 0, z = 1\<rparr>, \<lparr>x = 0, y = 0, z = 2\<rparr>, \<lparr>x = 1, y = 0, z = 2\<rparr>, \<lparr>x = 1, y = 0, z = 1\<rparr>]"
  "polyVerts grid_tile (quad (Suc 0) (Suc 0) l) =
     [\<lparr>x = 1, y = 0, z = 1\<rparr>, \<lparr>x = 1, y = 0, z = 2\<rparr>, \<lparr>x = 2, y = 0, z = 2\<rparr>, \<lparr>x = 2, y = 0, z = 1\<rparr>]"
  by (simp_all add: polyVerts_def tileVert_def grid_tile_def quad_def)

lemma grid_centers:
  "refCenter grid_mesh 64 = \<lparr>x = 1 / 2, y = 0, z = 1 / 2\<rparr>"
  "refCenter grid_mesh 65 = \<lparr>x = 3 / 2, y = 0, z = 1 / 2\<rparr>"
  "refCenter grid_mesh 66 = \<lparr>x = 1 / 2, y = 0, z = 3 / 2\<rparr>"
  "refCenter grid_mesh 67 = \<lparr>x = 3 / 2, y = 0, z = 3 / 2\<rparr>"
  by (simp_all add: refCenter_def grid_polys polyCenter_def grid_verts Let_def)

lemma bestFirst_numeral:
  "bestFirst (numeral k) expand goal pool ord =
     (case popBest pool of
        None \<Rightarrow> (OpenEmpty, pool, ord)
      | Some cur \<Rightarrow>
          (let pool1 = updateNode pool (cur\<lparr>n_closed := True\<rparr>);
               order1 = ord @ [n_ref cur]
           in if n_ref cur = goal then (Reached, pool1, order1)
              else bestFirst (pred_numeral k) expand goal (expand cur pool1) order1))"
  by (simp add: numeral_eq_Suc)

lemma default_cost: "m_areaCost dtQueryFilter_default a = 1"
  by (simp add: dtQueryFilter_default_def)

lemma quad_fields:
  "p_flags (quad a b l) = 1" "p_areaAndType (quad a b l) = 0" "p_firstLink (quad a b l) = l"
  by (simp_all add: quad_def)

lemma grid_all:
  "allPolyRefs grid_mesh =
     [(64, grid_tile, quad 0 0 (Some 0)), (65, grid_tile, quad (Suc 0) 0 (Some 2)),
      (66, grid_tile, quad 0 (Suc 0) (Some 4)), (67, grid_tile, quad (Suc 0) (Suc 0) (Some 6))]"
  by (simp add: allPolyRefs_def tilePolyRefs_def grid_mesh_def encodePolyId_def
      grid_tile_def upt_conv_Cons Let_def)

lemma grid_box:
  "dt_queryPolygons grid_mesh \<lparr>x = 1 / 2, y = 0, z = 1 / 2\<rparr> \<lparr>x = 1, y = 1, z = 1\<rparr>
     dtQueryFilter_default 2 = (Success [BufferTooSmall], [64, 65])"
  by (simp add: dt_queryPolygons_def grid_all polyOverlapsBox_def grid_verts overlapBounds_def
      vmin_def vmax_def vsub_def passFilter_def quad_fields dtQueryFilter_default_def)

lemma grid_circle:
  "dt_findPolysAroundCircle grid_mesh 16 64 \<lparr>x = 1/2, y = 0, z = 1/2\<rparr> 1 dtQueryFilter_default 2
   = (Success [BufferTooSmall], [64, 65], [0, 64], 1,
      [\<lparr>n_ref = 64, n_parent = 0, n_cost = 0, n_total = 0, n_closed = True\<rparr>,
       \<lparr>n_ref = 65, n_parent = 64, n_cost = 1, n_total = 1, n_closed = True\<rparr>,
       \<lparr>n_ref = 66, n_parent = 64, n_cost = 1, n_total = 1, n_closed = True\<rparr>])"
  by (simp add: dt_findPolysAroundCircle_def isValidPolyRef_def grid_polys grid_passable
      grid_centers grid_links Let_def vdist_def vdistSqr_def
      updateNode_def findNode_def bestFirst_numeral expandNode_def relaxLink_def edgeCost_def
      lnk_def isOffMesh_def getType_def getArea_def quad_fields default_cost)

lemma array_written:
  "n \<le> int (length xs) \<Longrightarrow> array (\<lambda>i. arr_get (written k d xs) i) n = take (nat n) xs"
  by (auto simp add: array_def written_def raw_array_of_def list_eq_iff_nth_eq)

text \<open>
  On the 2\<open>\<times>\<close>2 mesh with a bound of 2: the box around \<open>(1/2, 0, 1/2)\<close> meets all four quads
  and the circle of radius 1 from quad 64 reaches three; each query returns two
  references, \<open>[64, 65]\<close>, and says that the buffer was too small.
\<close>

theorem range_queries_bounded_witness:
  "polyRefs (fst (queryPolygons (detour no_module) query0 \<lparr>x = 1 / 2, y = 0, z = 1 / 2\<rparr>
       \<lparr>x = 1, y = 1, z = 1\<rparr> None (Some 2) grid_world)) = [64, 65]
   \<and> statusDetail (status (fst (queryPolygons (detour no_module) query0 \<lparr>x = 1 / 2, y = 0, z = 1 / 2\<rparr>
       \<lparr>x = 1, y = 1, z = 1\<rparr> None (Some 2) grid_world))) BufferTooSmall
   \<and> polyCount (fst (queryPolygons (detour no_module) query0 \<lparr>x = 1 / 2, y = 0, z = 1 / 2\<rparr>
       \<lparr>x = 1, y = 1, z = 1\<rparr> None (Some 2) grid_world)) \<le> 2
   \<and> resultRefs (fst (findPolysAroundCircle (detour no_module) query0 64
       \<lparr>x = 1 / 2, y = 0, z = 1 / 2\<rparr> 1 None (Some 2) grid_world)) = [64, 65]
   \<and> resultParents (fst (findPolysAroundCircle (detour no_module) query0 64
       \<lparr>x = 1 / 2, y = 0, z = 1 / 2\<rparr> 1 None (Some 2) grid_world)) = [0, 64]
   \<and> resultCount (fst (findPolysAroundCircle (detour no_module) query0 64
       \<lparr>x = 1 / 2, y = 0, z = 1 / 2\<rparr> 1 None (Some 2) grid_world)) \<le> 2"
proof -
  let ?c = "\<lparr>x = 1 / 2, y = 0, z = 1 / 2\<rparr> :: Vector3"
  let ?box = "fst (queryPolygons (detour no_module) query0 ?c \<lparr>x = 1, y = 1, z = 1\<rparr> None (Some 2)
      grid_world)"
  let ?circle = "fst (findPolysAroundCircle (detour no_module) query0 64 ?c 1 None (Some 2)
      grid_world)"
  have v: "vec3_fromArray (vec3_toArray v) = v" for v
    by (simp add: vec3_fromArray_def vec3_toArray_def)
  have g: "e_mesh (engine grid_world) = grid_mesh" "e_maxNodes (engine grid_world) = 16"
    "filters grid_world h = dtQueryFilter_default" for h
    by (simp_all add: grid_world_def grid_engine_def)
  have b: "polyRefs ?box = [64, 65]"
    "statusDetail (status ?box) BufferTooSmall"
    by (simp_all add: queryPolygons_def detour_fields Let_def v g grid_box array_written)
  have c: "resultRefs ?circle = [64, 65]" "resultParents ?circle = [0, 64]"
    by (simp_all add: findPolysAroundCircle_def detour_fields Let_def v g grid_circle array_written)
  note T = range_queries_bounded [OF _ _ refl refl, of 2 "Some 2" no_module query0 ?c
      "\<lparr>x = 1, y = 1, z = 1\<rparr>" None grid_world 64 1]
  have "polyCount ?box \<le> 2 \<and> resultCount ?circle \<le> 2"
    using T by simp
  then show ?thesis
    using b c by simp
qed

subsection \<open>A path from a polygon to itself\<close>

lemma dt_findPath_same:
  assumes "passable m f A" and "1 \<le> n"
  shows "fst (snd (dt_findPath m k A A p p' f n)) = [A]
    \<and> dt_statusSucceed (fst (dt_findPath m k A A p p' f n))
    \<and> \<not> statusDetail (fst (dt_findPath m k A A p p' f n)) PartialResult
    \<and> \<not> statusDetail (fst (dt_findPath m k A A p p' f n)) BufferTooSmall"
proof (cases k)
  case 0
  with assms show ?thesis
    by (simp add: dt_findPath_def Let_def findNode_def take_Cons')
next
  case (Suc j)
  with assms show ?thesis
    by (simp add: dt_findPath_def Let_def updateNode_def findNode_def take_Cons')
qed

text \<open>
  C4. With the engine of the spec behind the wrapper: for a polygon \<open>A\<close> of the mesh that
  passes the filter (the one given, or the default filter), any position \<open>p\<close> and a bound
  of at least one polygon (256 when the caller gives none), \<^verbatim>\<open>findPath(A, A, p, p, filter)\<close>
  succeeds, not as a partial result, and its corridor has the one element \<open>A\<close>.
\<close>

theorem findPath_same_polygon:
  fixes R :: "(dtEngine, dt_status, vflag) raw_module"
  assumes "passable (e_mesh (engine w))
             (filters w (qf_raw (case filter' of Some f \<Rightarrow> f | None \<Rightarrow> defaultFilter q))) A"
    and "1 \<le> (case maxPathPolys of Some n \<Rightarrow> n | None \<Rightarrow> 256)"
    and "r = fst (findPath (detour R) q A A p p filter' maxPathPolys w)"
  shows "success r \<and> \<not> statusDetail (status r) PartialResult
       \<and> arr_size (polys r) = 1 \<and> arr_get (polys r) 0 = A"
  using dt_findPath_same [OF assms(1,2), of "e_maxNodes (engine w)"
      "vec3_fromArray (vec3_toArray p)" "vec3_fromArray (vec3_toArray p)"] assms(3)
  by (simp add: findPath_def detour_fields Let_def case_prod_beta raw_array_of_def)

text \<open>
  On the 2\<open>\<times>\<close>2 mesh, from quad 64 to itself at its centre, with the default filter and the
  default bound: the corridor is \<open>[64]\<close>.
\<close>

theorem findPath_same_polygon_witness:
  "success (fst (findPath (detour no_module) query0 64 64 \<lparr>x = 1 / 2, y = 0, z = 1 / 2\<rparr>
       \<lparr>x = 1 / 2, y = 0, z = 1 / 2\<rparr> None None grid_world))
   \<and> array (arr_get (polys (fst (findPath (detour no_module) query0 64 64
         \<lparr>x = 1 / 2, y = 0, z = 1 / 2\<rparr> \<lparr>x = 1 / 2, y = 0, z = 1 / 2\<rparr> None None grid_world))))
       (arr_size (polys (fst (findPath (detour no_module) query0 64 64
         \<lparr>x = 1 / 2, y = 0, z = 1 / 2\<rparr> \<lparr>x = 1 / 2, y = 0, z = 1 / 2\<rparr> None None grid_world)))) = [64]"
proof -
  have g: "e_mesh (engine grid_world) = grid_mesh" "filters grid_world h = dtQueryFilter_default" for h
    by (simp_all add: grid_world_def grid_engine_def)
  have p: "passable (e_mesh (engine grid_world))
      (filters grid_world (qf_raw (case None of Some f \<Rightarrow> f | None \<Rightarrow> defaultFilter query0))) 64"
    by (simp add: g grid_passable)
  note T = findPath_same_polygon [OF p _ refl, of None no_module "\<lparr>x = 1 / 2, y = 0, z = 1 / 2\<rparr>"]
  show ?thesis
    using T by (simp add: array_def upt_conv_Cons)
qed

subsection \<open>The corridor search keeps to passable polygons\<close>

lemma updateNode_refs: "n_ref ` set (updateNode pool n') = n_ref ` set pool"
  by (induction pool) (auto simp add: updateNode_def)

lemma findNode_Some: "findNode pool r = Some n \<Longrightarrow> n \<in> set pool \<and> n_ref n = r"
  by (induction pool) (auto simp add: findNode_def split: if_splits)

lemma findNode_None: "findNode pool r = None \<longleftrightarrow> r \<notin> n_ref ` set pool"
  by (induction pool) (auto simp add: findNode_def)

lemma relaxLink_refs:
  "n_ref ` set pool \<subseteq> n_ref ` set (relaxLink m f h admit k cur pool l)"
  "n_ref ` set (relaxLink m f h admit k cur pool l) \<subseteq> n_ref ` set pool \<union> {r. passable m f r}"
  by (auto simp add: relaxLink_def Let_def updateNode_refs split: option.splits if_splits)

lemma foldl_relaxLink_refs:
  "n_ref ` set pool \<subseteq> n_ref ` set (foldl (relaxLink m f h admit k cur) pool ls)
   \<and> n_ref ` set (foldl (relaxLink m f h admit k cur) pool ls) \<subseteq> n_ref ` set pool \<union> {r. passable m f r}"
proof (induction ls arbitrary: pool)
  case Nil
  then show ?case by simp
next
  case (Cons l ls)
  let ?A = "n_ref ` set pool"
  let ?B = "n_ref ` set (relaxLink m f h admit k cur pool l)"
  let ?C = "n_ref ` set (foldl (relaxLink m f h admit k cur) (relaxLink m f h admit k cur pool l) ls)"
  note ih = Cons [of "relaxLink m f h admit k cur pool l"]
  have 1: "?B \<subseteq> ?C"
    by (rule ih [THEN conjunct1])
  have 2: "?C \<subseteq> ?B \<union> {r. passable m f r}"
    by (rule ih [THEN conjunct2])
  have 3: "?A \<subseteq> ?B"
    by (rule relaxLink_refs(1))
  have 4: "?B \<subseteq> ?A \<union> {r. passable m f r}"
    by (rule relaxLink_refs(2))
  show ?case
    unfolding foldl_Cons
  proof (intro conjI)
    show "?A \<subseteq> ?C"
      by (rule subset_trans [OF 3 1])
    show "?C \<subseteq> ?A \<union> {r. passable m f r}"
      using 2 4 by blast
  qed
qed

lemma expandNode_refs:
  "n_ref ` set pool \<subseteq> n_ref ` set (expandNode m f h admit k cur pool)"
  "n_ref ` set (expandNode m f h admit k cur pool) \<subseteq> n_ref ` set pool \<union> {r. passable m f r}"
  using foldl_relaxLink_refs [where pool = pool and m = m and f = f and h = h and admit = admit
      and k = k and cur = cur]
  by (auto simp add: expandNode_def split: option.splits)

lemma popBest_Some: "popBest pool = Some n \<Longrightarrow> n \<in> set pool"
  by (induction pool arbitrary: n) (auto split: if_splits option.splits)

lemma bestFirst_refs:
  assumes "bestFirst k (expandNode m f h admit mx) goal pool ord = (how, pool', ord')"
  shows "n_ref ` set pool \<subseteq> n_ref ` set pool'
    \<and> n_ref ` set pool' \<subseteq> n_ref ` set pool \<union> {r. passable m f r}
    \<and> (how = Reached \<longrightarrow> goal \<in> n_ref ` set pool')"
  using assms
proof (induction k arbitrary: pool ord)
  case 0
  then show ?case by simp
next
  case (Suc k)
  show ?case
  proof (cases "popBest pool")
    case None
    with Suc.prems show ?thesis by simp
  next
    case (Some cur)
    let ?pool1 = "updateNode pool (cur\<lparr>n_closed := True\<rparr>)"
    have cur: "n_ref cur \<in> n_ref ` set pool"
      using popBest_Some [OF Some] by auto
    have r1: "n_ref ` set ?pool1 = n_ref ` set pool"
      by (rule updateNode_refs)
    show ?thesis
    proof (cases "n_ref cur = goal")
      case True
      with Suc.prems Some have "how = Reached" "pool' = ?pool1"
        by (simp_all add: Let_def)
      then show ?thesis
        using r1 cur True by auto
    next
      case False
      with Suc.prems Some have
        "bestFirst k (expandNode m f h admit mx) goal (expandNode m f h admit mx cur ?pool1)
           (ord @ [n_ref cur]) = (how, pool', ord')"
        by (simp add: Let_def)
      note ih = Suc.IH [OF this]
      let ?A = "n_ref ` set pool"
      let ?B = "n_ref ` set (expandNode m f h admit mx cur ?pool1)"
      let ?C = "n_ref ` set pool'"
      have 1: "?B \<subseteq> ?C"
        by (rule ih [THEN conjunct1])
      have 2: "?C \<subseteq> ?B \<union> {r. passable m f r}"
        by (rule ih [THEN conjunct2, THEN conjunct1])
      have 5: "how = Reached \<longrightarrow> goal \<in> ?C"
        by (rule ih [THEN conjunct2, THEN conjunct2])
      have 3: "?A \<subseteq> ?B"
        using expandNode_refs(1) [where pool = ?pool1 and m = m and f = f and h = h
            and admit = admit and k = mx and cur = cur]
        by (simp only: r1)
      have 4: "?B \<subseteq> ?A \<union> {r. passable m f r}"
        using expandNode_refs(2) [where pool = ?pool1 and m = m and f = f and h = h
            and admit = admit and k = mx and cur = cur]
        by (simp only: r1)
      show ?thesis
      proof (intro conjI)
        show "?A \<subseteq> ?C"
          by (rule subset_trans [OF 3 1])
        show "?C \<subseteq> ?A \<union> {r. passable m f r}"
          using 2 4 by blast
        show "how = Reached \<longrightarrow> goal \<in> ?C"
          by (rule 5)
      qed
    qed
  qed
qed

lemma closestToGoal_mem: "closestToGoal pool best \<in> set pool \<union> {best}"
  by (induction pool arbitrary: best) (auto split: if_splits)

lemma walkParents_suffix: "\<exists>xs. walkParents k pool r acc = xs @ acc \<and> set xs \<subseteq> n_ref ` set pool"
proof (induction k arbitrary: r acc)
  case 0
  then show ?case by simp
next
  case (Suc k)
  show ?case
  proof (cases "findNode pool r")
    case None
    then show ?thesis by simp
  next
    case (Some n)
    then have r: "r \<in> n_ref ` set pool"
      using findNode_Some [OF Some] by auto
    show ?thesis
    proof (cases "n_parent n = 0")
      case True
      with Some r show ?thesis by auto
    next
      case False
      obtain xs where "walkParents k pool (n_parent n) (r # acc) = xs @ r # acc"
        "set xs \<subseteq> n_ref ` set pool"
        using Suc [of "n_parent n" "r # acc"] by auto
      with Some False r show ?thesis
        by (auto intro!: exI [of _ "xs @ [r]"])
    qed
  qed
qed

lemma walkParents_set: "set (walkParents k pool r []) \<subseteq> n_ref ` set pool"
  using walkParents_suffix [of k pool r "[]"] by auto

lemma dt_findPath_passable:
  assumes "dt_findPath m k a b sp ep f n = (st, corridor, pool)"
  shows "\<forall>r \<in> set corridor. passable m f r"
proof (cases "passable m f a \<and> passable m f b")
  case False
  with assms show ?thesis
    by (auto simp add: dt_findPath_def split: if_splits)
next
  case True
  let ?h = "\<lambda>r. vdist (refCenter m r) ep"
  let ?s = "\<lparr>n_ref = a, n_parent = 0, n_cost = 0, n_total = ?h a, n_closed = False\<rparr>"
  obtain how pool' ord where
    bf: "bestFirst k (expandNode m f ?h (\<lambda>r g. True) k) b [?s] [] = (how, pool', ord)"
    by (metis prod_cases3)
  from bestFirst_refs [OF bf] True
  have P: "\<forall>r \<in> n_ref ` set pool'. passable m f r"
    by auto
  have "fst (snd (dt_findPath m k a b sp ep f n)) = take (nat n)
      (walkParents (length pool') pool'
        (if how = Reached then b else n_ref (closestToGoal pool' ?s)) [])"
    using True bf by (simp add: dt_findPath_def Let_def)
  then have "corridor = take (nat n)
      (walkParents (length pool') pool'
        (if how = Reached then b else n_ref (closestToGoal pool' ?s)) [])"
    using assms by simp
  then have "set corridor \<subseteq> n_ref ` set pool'"
    using walkParents_set [of "length pool'" pool'] set_take_subset [of "nat n"]
    by fastforce
  with P show ?thesis by auto
qed

lemma passable_valid: "passable m f r \<Longrightarrow> isValidPolyRef m r"
  by (auto simp add: passable_def isValidPolyRef_def split: option.splits)

subsection \<open>What is emitted\<close>

lemma appendVertex_hd:
  "out \<noteq> [] \<Longrightarrow> appendVertex out v \<noteq> [] \<and> fst (hd (appendVertex out v)) = fst (hd out)"
  by (cases out rule: rev_cases) (auto simp add: appendVertex_def hd_append)

lemma appendVertex_last: "last (appendVertex out v) = v"
  by (simp add: appendVertex_def)

lemma appendVertex_length: "length (appendVertex out v) \<le> Suc (length out)"
  by (simp add: appendVertex_def)

lemma emitAll_hd:
  "out \<noteq> [] \<Longrightarrow> fst (emitAll mx out vs) \<noteq> [] \<and> fst (hd (fst (emitAll mx out vs))) = fst (hd out)"
proof (induction vs arbitrary: out)
  case Nil
  then show ?case by simp
next
  case (Cons v vs)
  show ?case
    using Cons.IH [of "appendVertex out v"] appendVertex_hd [OF Cons.prems, of v] Cons.prems
    by simp
qed

lemma emitAll_first:
  "0 < mx \<Longrightarrow> fst (emitAll mx [] (v # vs)) \<noteq> [] \<and> fst (hd (fst (emitAll mx [] (v # vs)))) = fst v"
  using emitAll_hd [of "[v]" mx vs] by (simp add: appendVertex_def)

lemma emitAll_length: "length (fst (emitAll mx out vs)) \<le> max mx (length out)"
proof (induction vs arbitrary: out)
  case Nil
  then show ?case by simp
next
  case (Cons v vs)
  show ?case
    using Cons [of "appendVertex out v"] appendVertex_length [of out v]
    by (simp split: if_splits) linarith
qed

lemma emitAll_last:
  "\<not> snd (emitAll mx out vs) \<Longrightarrow> vs \<noteq> [] \<Longrightarrow> last (fst (emitAll mx out vs)) = last vs"
proof (induction vs arbitrary: out)
  case Nil
  then show ?case by simp
next
  case (Cons v vs)
  show ?case
  proof (cases "vs = []")
    case True
    with Cons.prems show ?thesis
      by (simp add: appendVertex_last split: if_splits)
  next
    case False
    with Cons.prems Cons.IH [of "appendVertex out v"] show ?thesis
      by (simp split: if_splits)
  qed
qed

subsection \<open>Reading the result arrays\<close>

lemma array_raw_array_of: "array (arr_get (raw_array_of d xs)) (arr_size (raw_array_of d xs)) = xs"
proof -
  have "map (\<lambda>i. arr_get (raw_array_of d xs) (int i)) [0..<length xs] = map (\<lambda>i. xs ! i) [0..<length xs]"
    by (rule map_cong) (simp_all add: raw_array_of_def)
  then show ?thesis
    by (simp add: array_def raw_array_of_def map_nth)
qed

lemma written_get: "i < length xs \<Longrightarrow> arr_get (written n d xs) (int i) = xs ! i"
  by (simp add: written_def raw_array_of_def)

lemma coords_nth:
  "i < length vs \<Longrightarrow>
     concat (map (\<lambda>(p, fl, r). [x p, y p, z p]) vs) ! (3 * i) = x (fst (vs ! i))
   \<and> concat (map (\<lambda>(p, fl, r). [x p, y p, z p]) vs) ! (3 * i + 1) = y (fst (vs ! i))
   \<and> concat (map (\<lambda>(p, fl, r). [x p, y p, z p]) vs) ! (3 * i + 2) = z (fst (vs ! i))"
proof (induction vs arbitrary: i)
  case Nil
  then show ?case by simp
next
  case (Cons v vs)
  obtain p fl r where v: "v = (p, fl, r)"
    by (cases v)
  show ?case
  proof (cases i)
    case 0
    then show ?thesis by (simp add: v)
  next
    case (Suc j)
    have e: "3 * Suc j = Suc (Suc (Suc (3 * j)))"
      by simp
    from Suc Cons.prems have "j < length vs"
      by simp
    from Cons.IH [OF this] show ?thesis
      by (simp add: v Suc e)
  qed
qed

lemma coords_length: "length (concat (map (\<lambda>(p, fl, r). [x p, y p, z p]) vs)) = 3 * length vs"
  by (induction vs) auto

subsection \<open>String-pulling over a corridor\<close>

lemma dt_findStraightPath_ends:
  assumes "c \<noteq> []" and "isValidPolyRef m (hd c)" and "isValidPolyRef m (last c)" and "1 \<le> mx"
  shows "dt_statusSucceed (fst (dt_findStraightPath m s e c mx opts))
    \<and> snd (dt_findStraightPath m s e c mx opts) \<noteq> []
    \<and> int (length (snd (dt_findStraightPath m s e c mx opts))) \<le> mx
    \<and> fst (hd (snd (dt_findStraightPath m s e c mx opts))) = clampToPoly m (hd c) s
    \<and> (\<not> statusDetail (fst (dt_findStraightPath m s e c mx opts)) BufferTooSmall \<longrightarrow>
         last (snd (dt_findStraightPath m s e c mx opts)) = (clampToPoly m (last c) e, PathEnd, 0))"
proof -
  let ?v0 = "(clampToPoly m (hd c) s, Normal, hd c)"
  let ?ve = "(clampToPoly m (last c) e, PathEnd, 0 :: polyRef)"
  let ?vs = "pull (restartAt (clampToPoly m (hd c) s) (hd c))
      (corridorSteps m c @ [Portal (clampToPoly m (last c) e) (clampToPoly m (last c) e) 0]) @ [?ve]"
  let ?r = "emitAll (nat mx) [] (?v0 # ?vs)"
  have d: "dt_findStraightPath m s e c mx opts =
      (Success (if snd ?r then [BufferTooSmall] else []), fst ?r)"
    using assms(1-3) by (simp add: dt_findStraightPath_def Let_def case_prod_beta)
  have pos: "0 < nat mx"
    using assms(4) by simp
  have 1: "fst ?r \<noteq> [] \<and> fst (hd (fst ?r)) = fst ?v0"
    by (rule emitAll_first [OF pos])
  have 2: "length (fst ?r) \<le> nat mx"
    using emitAll_length [of "nat mx" "[]" "?v0 # ?vs"] by simp
  have 3: "\<not> snd ?r \<Longrightarrow> last (fst ?r) = ?ve"
    using emitAll_last [of "nat mx" "[]" "?v0 # ?vs"] by simp
  have b2: "int (length (fst ?r)) \<le> mx"
    using 2 assms(4) by linarith
  show ?thesis
    unfolding d using 1 b2 3 by simp
qed

subsection \<open>A straight path over a corridor of the search\<close>

lemma vec3_round: "vec3_fromArray (vec3_toArray v) = v"
  by (simp add: vec3_fromArray_def vec3_toArray_def)

lemma findPath_detour:
  fixes R :: "(dtEngine, dt_status, vflag) raw_module"
  assumes "dt_findPath (e_mesh (engine w)) (e_maxNodes (engine w)) a b sp ep
             (filters w (qf_raw (case filter' of Some f \<Rightarrow> f | None \<Rightarrow> defaultFilter q)))
             (case mp of Some k \<Rightarrow> k | None \<Rightarrow> 256) = (st, c, pool)"
  shows "status (fst (findPath (detour R) q a b sp ep filter' mp w)) = st"
    and "success (fst (findPath (detour R) q a b sp ep filter' mp w)) = dt_statusSucceed st"
    and "polys (fst (findPath (detour R) q a b sp ep filter' mp w)) = raw_array_of 0 c"
    and "e_mesh (engine (snd (findPath (detour R) q a b sp ep filter' mp w))) = e_mesh (engine w)"
  using assms
  by (simp_all add: findPath_def detour_fields Let_def vec3_round)

lemma findStraightPath_detour:
  fixes R :: "(dtEngine, dt_status, vflag) raw_module"
  assumes "dt_findStraightPath (e_mesh (engine w)) s t (array (arr_get ps) (arr_size ps))
             (case mx of Some k \<Rightarrow> k | None \<Rightarrow> 256) (case opts of Some k \<Rightarrow> k | None \<Rightarrow> 0) =
           (st, vs)"
  shows "status (fst (findStraightPath (detour R) q s t ps mx opts w)) = st"
    and "success (fst (findStraightPath (detour R) q s t ps mx opts w)) = dt_statusSucceed st"
    and "straightPathCount (fst (findStraightPath (detour R) q s t ps mx opts w)) = int (length vs)"
    and "straightPath (fst (findStraightPath (detour R) q s t ps mx opts w)) =
           written ((case mx of Some k \<Rightarrow> k | None \<Rightarrow> 256) * 3) 0
             (concat (map (\<lambda>(p, fl, r). [x p, y p, z p]) vs))"
    and "straightPathFlags (fst (findStraightPath (detour R) q s t ps mx opts w)) =
           written (case mx of Some k \<Rightarrow> k | None \<Rightarrow> 256) Normal (map (\<lambda>(p, fl, r). fl) vs)"
    and "straightPathRefs (fst (findStraightPath (detour R) q s t ps mx opts w)) =
           written (case mx of Some k \<Rightarrow> k | None \<Rightarrow> 256) 0 (map (\<lambda>(p, fl, r). r) vs)"
  using assms
  by (simp_all add: findStraightPath_def detour_fields Let_def vec3_round)

lemma point_at:
  assumes "i < length vs"
  shows "\<lparr>x = arr_get (written k 0 (concat (map (\<lambda>(p, fl, r). [x p, y p, z p]) vs))) (3 * int i),
          y = arr_get (written k 0 (concat (map (\<lambda>(p, fl, r). [x p, y p, z p]) vs))) (3 * int i + 1),
          z = arr_get (written k 0 (concat (map (\<lambda>(p, fl, r). [x p, y p, z p]) vs))) (3 * int i + 2)\<rparr>
         = fst (vs ! i)"
    and "arr_get (written k' d (map (\<lambda>(p, fl, r). fl) vs)) (int i) = fst (snd (vs ! i))"
    and "arr_get (written k'' d' (map (\<lambda>(p, fl, r). r) vs)) (int i) = snd (snd (vs ! i))"
proof -
  let ?cs = "concat (map (\<lambda>(p, fl, r). [x p, y p, z p]) vs)"
  have l: "3 * i < length ?cs" "3 * i + 1 < length ?cs" "3 * i + 2 < length ?cs"
    using assms by (simp_all add: coords_length)
  have g: "arr_get (written k 0 ?cs) (3 * int i) = x (fst (vs ! i))"
    "arr_get (written k 0 ?cs) (3 * int i + 1) = y (fst (vs ! i))"
    "arr_get (written k 0 ?cs) (3 * int i + 2) = z (fst (vs ! i))"
    using written_get [OF l(1), of k 0] written_get [OF l(2), of k 0] written_get [OF l(3), of k 0]
      coords_nth [OF assms]
    by (simp_all add: add.commute)
  show "\<lparr>x = arr_get (written k 0 ?cs) (3 * int i),
          y = arr_get (written k 0 ?cs) (3 * int i + 1),
          z = arr_get (written k 0 ?cs) (3 * int i + 2)\<rparr> = fst (vs ! i)"
    by (simp only: g) simp
  show "arr_get (written k' d (map (\<lambda>(p, fl, r). fl) vs)) (int i) = fst (snd (vs ! i))"
    using assms by (simp add: written_get case_prod_beta)
  show "arr_get (written k'' d' (map (\<lambda>(p, fl, r). r) vs)) (int i) = snd (snd (vs ! i))"
    using assms by (simp add: written_get case_prod_beta)
qed

text \<open>
  C1, amended. With the engine of the spec behind the wrapper: for the corridor
  \<open>[P0..Pn]\<close> of a successful \<^verbatim>\<open>findPath\<close>, not empty, any start and end position and a bound
  \<^verbatim>\<open>maxStraightPathPoints\<close> of at least one point (256 when the caller gives none),
  \<^verbatim>\<open>findStraightPath\<close> over that corridor succeeds and returns at least one point and at
  most the bound; the first point is the start clamped to \<open>P0\<close>; and unless the status says
  that the buffer was too small, the last point is the end clamped to \<open>Pn\<close>, its flag is
  path-end and its polygon reference is 0.
\<close>

theorem straight_path_over_corridor:
  fixes R :: "(dtEngine, dt_status, vflag) raw_module"
  assumes "fp = fst (findPath (detour R) q startRef endRef sp ep filter' maxPathPolys w)"
    and "w1 = snd (findPath (detour R) q startRef endRef sp ep filter' maxPathPolys w)"
    and "success fp" and "0 < arr_size (polys fp)"
    and "1 \<le> (case maxStraightPathPoints of Some k \<Rightarrow> k | None \<Rightarrow> 256)"
    and "sr = fst (findStraightPath (detour R) q start end' (polys fp) maxStraightPathPoints opts w1)"
    and "n = straightPathCount sr"
    and "P0 = arr_get (polys fp) 0" and "Pn = arr_get (polys fp) (arr_size (polys fp) - 1)"
  shows
    "success sr \<and> 1 \<le> n \<and> n \<le> (case maxStraightPathPoints of Some k \<Rightarrow> k | None \<Rightarrow> 256)
   \<and> \<lparr>x = arr_get (straightPath sr) 0, y = arr_get (straightPath sr) 1,
       z = arr_get (straightPath sr) 2\<rparr> = clampToPoly (e_mesh (engine w)) P0 start
   \<and> (\<not> statusDetail (status sr) BufferTooSmall \<longrightarrow>
        \<lparr>x = arr_get (straightPath sr) (3 * (n - 1)), y = arr_get (straightPath sr) (3 * (n - 1) + 1),
          z = arr_get (straightPath sr) (3 * (n - 1) + 2)\<rparr> = clampToPoly (e_mesh (engine w)) Pn end'
      \<and> arr_get (straightPathFlags sr) (n - 1) = PathEnd
      \<and> arr_get (straightPathRefs sr) (n - 1) = 0)"
proof -
  let ?m = "e_mesh (engine w)"
  let ?f = "filters w (qf_raw (case filter' of Some f \<Rightarrow> f | None \<Rightarrow> defaultFilter q))"
  let ?mx = "case maxStraightPathPoints of Some k \<Rightarrow> k | None \<Rightarrow> 256"
  obtain st c pool where D: "dt_findPath ?m (e_maxNodes (engine w)) startRef endRef sp ep ?f
      (case maxPathPolys of Some k \<Rightarrow> k | None \<Rightarrow> 256) = (st, c, pool)"
    by (metis prod_cases3)
  note F = findPath_detour [OF D, of R]
  have ps: "polys fp = raw_array_of 0 c"
    unfolding assms(1) by (rule F(3))
  have m1: "e_mesh (engine w1) = ?m"
    unfolding assms(2) by (rule F(4))
  have c: "c \<noteq> []"
    using assms(4) by (simp add: ps raw_array_of_def)
  have corridor: "array (arr_get (polys fp)) (arr_size (polys fp)) = c"
    unfolding ps by (rule array_raw_array_of)
  have valid: "isValidPolyRef ?m (hd c)" "isValidPolyRef ?m (last c)"
    using dt_findPath_passable [OF D] c passable_valid [of ?m ?f] by simp_all
  have p0: "P0 = hd c"
    using c by (simp add: assms(8) ps raw_array_of_def hd_conv_nth)
  have pn: "Pn = last c"
    using c by (simp add: assms(9) ps raw_array_of_def last_conv_nth nat_diff_distrib')
  obtain st' vs where S: "dt_findStraightPath (e_mesh (engine w1)) start end'
      (array (arr_get (polys fp)) (arr_size (polys fp))) ?mx
      (case opts of Some k \<Rightarrow> k | None \<Rightarrow> 0) = (st', vs)"
    by (metis prod.exhaust)
  note G = findStraightPath_detour [OF S, of R q, folded assms(6)]
  note E = dt_findStraightPath_ends [OF c valid assms(5), of start end'
      "case opts of Some k \<Rightarrow> k | None \<Rightarrow> 0"]
  have S': "dt_findStraightPath ?m start end' c ?mx (case opts of Some k \<Rightarrow> k | None \<Rightarrow> 0) = (st', vs)"
    using S by (simp only: m1 corridor)
  have ok: "dt_statusSucceed st'" and ne: "vs \<noteq> []" and le: "int (length vs) \<le> ?mx"
    and first: "fst (hd vs) = clampToPoly ?m (hd c) start"
    and final: "\<not> statusDetail st' BufferTooSmall \<Longrightarrow> last vs = (clampToPoly ?m (last c) end', PathEnd, 0)"
    using E by (simp_all add: S')
  have n: "n = int (length vs)"
    unfolding assms(7) by (rule G(3))
  have i0: "0 < length vs"
    using ne by simp
  have il: "length vs - 1 < length vs"
    using ne by simp
  have nl: "n - 1 = int (length vs - 1)"
    using ne n by (simp add: of_nat_diff Suc_leI)
  have h: "hd vs = vs ! 0" and l: "last vs = vs ! (length vs - 1)"
    using ne by (simp_all add: hd_conv_nth last_conv_nth)
  have "\<lparr>x = arr_get (straightPath sr) 0, y = arr_get (straightPath sr) 1,
       z = arr_get (straightPath sr) 2\<rparr> = fst (vs ! 0)"
    using point_at(1) [OF i0, of "?mx * 3"] by (simp add: G(4))
  then have A: "\<lparr>x = arr_get (straightPath sr) 0, y = arr_get (straightPath sr) 1,
       z = arr_get (straightPath sr) 2\<rparr> = clampToPoly ?m P0 start"
    using first h p0 by simp
  have B: "\<lparr>x = arr_get (straightPath sr) (3 * (n - 1)), y = arr_get (straightPath sr) (3 * (n - 1) + 1),
          z = arr_get (straightPath sr) (3 * (n - 1) + 2)\<rparr> = fst (last vs)"
    "arr_get (straightPathFlags sr) (n - 1) = fst (snd (last vs))"
    "arr_get (straightPathRefs sr) (n - 1) = snd (snd (last vs))"
    unfolding nl l G(4) G(5) G(6)
    by (rule point_at [OF il])+
  have C: "\<not> statusDetail (status sr) BufferTooSmall \<longrightarrow>
        \<lparr>x = arr_get (straightPath sr) (3 * (n - 1)), y = arr_get (straightPath sr) (3 * (n - 1) + 1),
          z = arr_get (straightPath sr) (3 * (n - 1) + 2)\<rparr> = clampToPoly ?m Pn end'
      \<and> arr_get (straightPathFlags sr) (n - 1) = PathEnd
      \<and> arr_get (straightPathRefs sr) (n - 1) = 0"
    using final B by (simp add: G(1) pn)
  have "success sr"
    using ok by (simp add: G(2))
  moreover have "1 \<le> n" "n \<le> ?mx"
    using ne le n by (simp_all add: Suc_leI)
  ultimately show ?thesis
    using A C by simp
qed

subsection \<open>A straight path on the 2\<open>\<times>\<close>2 mesh\<close>

lemma grid_world_fields:
  "e_mesh (engine grid_world) = grid_mesh" "e_maxNodes (engine grid_world) = 16"
  "filters grid_world h = dtQueryFilter_default"
  by (simp_all add: grid_world_def grid_engine_def)

lemma grid_path_64:
  "dt_findPath grid_mesh 16 64 64 \<lparr>x = 1 / 2, y = 0, z = 1 / 2\<rparr> \<lparr>x = 1 / 2, y = 0, z = 1 / 2\<rparr>
     dtQueryFilter_default 256 =
   (Success [], [64], [\<lparr>n_ref = 64, n_parent = 0, n_cost = 0, n_total = 0, n_closed = True\<rparr>])"
  by (simp add: dt_findPath_def grid_passable grid_centers Let_def vdist_def vdistSqr_def
      updateNode_def findNode_def bestFirst_numeral)

lemma grid_clamp_64:
  "clampToPoly grid_mesh 64 \<lparr>x = 1 / 4, y = 0, z = 1 / 4\<rparr> = \<lparr>x = 1 / 4, y = 0, z = 1 / 4\<rparr>"
  "clampToPoly grid_mesh 64 \<lparr>x = 3 / 4, y = 0, z = 3 / 4\<rparr> = \<lparr>x = 3 / 4, y = 0, z = 3 / 4\<rparr>"
  by (simp_all add: clampToPoly_def grid_polys grid_verts closestPointOnVerts_def pointInPolygon_def
      polyEdges_def planeHeight_def vsub_def Let_def)

lemma grid_step_64:
  "snd (funnelStep (restartAt \<lparr>x = 1 / 4, y = 0, z = 1 / 4\<rparr> 64)
     \<lparr>x = 3 / 4, y = 0, z = 3 / 4\<rparr> \<lparr>x = 3 / 4, y = 0, z = 3 / 4\<rparr> 0) = []"
  by (simp add: funnelStep_def restartAt_def triArea2D_def)

lemma grid_straight_64:
  "dt_findStraightPath grid_mesh \<lparr>x = 1 / 4, y = 0, z = 1 / 4\<rparr> \<lparr>x = 3 / 4, y = 0, z = 3 / 4\<rparr>
     [64] 256 0 =
   (Success [], [(\<lparr>x = 1 / 4, y = 0, z = 1 / 4\<rparr>, Normal, 64),
                 (\<lparr>x = 3 / 4, y = 0, z = 3 / 4\<rparr>, PathEnd, 0)])"
  "dt_findStraightPath grid_mesh \<lparr>x = 1 / 4, y = 0, z = 1 / 4\<rparr> \<lparr>x = 3 / 4, y = 0, z = 3 / 4\<rparr>
     [64] 1 0 =
   (Success [BufferTooSmall], [(\<lparr>x = 1 / 4, y = 0, z = 1 / 4\<rparr>, Normal, 64)])"
  by (simp_all add: dt_findStraightPath_def isValidPolyRef_def grid_polys grid_clamp_64
      grid_step_64 appendVertex_def Let_def)

lemma grid_findPath_64:
  "dt_findPath (e_mesh (engine grid_world)) (e_maxNodes (engine grid_world)) 64 64
     \<lparr>x = 1 / 2, y = 0, z = 1 / 2\<rparr> \<lparr>x = 1 / 2, y = 0, z = 1 / 2\<rparr>
     (filters grid_world (qf_raw (case None of Some f \<Rightarrow> f | None \<Rightarrow> defaultFilter query0)))
     (case None of Some k \<Rightarrow> k | None \<Rightarrow> 256) =
   (Success [], [64], [\<lparr>n_ref = 64, n_parent = 0, n_cost = 0, n_total = 0, n_closed = True\<rparr>])"
  by (simp add: grid_world_fields grid_path_64)

lemma grid_findStraightPath_64:
  fixes R :: "(dtEngine, dt_status, vflag) raw_module"
  assumes "w1 = snd (findPath (detour R) query0 64 64 \<lparr>x = 1 / 2, y = 0, z = 1 / 2\<rparr>
      \<lparr>x = 1 / 2, y = 0, z = 1 / 2\<rparr> None None grid_world)"
    and "ps = polys (fst (findPath (detour R) query0 64 64 \<lparr>x = 1 / 2, y = 0, z = 1 / 2\<rparr>
      \<lparr>x = 1 / 2, y = 0, z = 1 / 2\<rparr> None None grid_world))"
  shows "dt_findStraightPath (e_mesh (engine w1)) \<lparr>x = 1 / 4, y = 0, z = 1 / 4\<rparr>
      \<lparr>x = 3 / 4, y = 0, z = 3 / 4\<rparr> (array (arr_get ps) (arr_size ps))
      (case None of Some k \<Rightarrow> k | None \<Rightarrow> 256) (case None of Some k \<Rightarrow> k | None \<Rightarrow> 0) =
     (Success [], [(\<lparr>x = 1 / 4, y = 0, z = 1 / 4\<rparr>, Normal, 64),
                   (\<lparr>x = 3 / 4, y = 0, z = 3 / 4\<rparr>, PathEnd, 0)])"
    and "dt_findStraightPath (e_mesh (engine w1)) \<lparr>x = 1 / 4, y = 0, z = 1 / 4\<rparr>
      \<lparr>x = 3 / 4, y = 0, z = 3 / 4\<rparr> (array (arr_get ps) (arr_size ps))
      (case Some 1 of Some k \<Rightarrow> k | None \<Rightarrow> 256) (case None of Some k \<Rightarrow> k | None \<Rightarrow> 0) =
     (Success [BufferTooSmall], [(\<lparr>x = 1 / 4, y = 0, z = 1 / 4\<rparr>, Normal, 64)])"
  unfolding assms findPath_detour [OF grid_findPath_64] array_raw_array_of
  by (simp_all add: grid_world_fields grid_straight_64)

text \<open>
  On the 2\<open>\<times>\<close>2 mesh, over the corridor \<open>[64]\<close> of the path from quad 64 to itself, from
  \<open>(1/4, 0, 1/4)\<close> to \<open>(3/4, 0, 3/4)\<close> with the default bound: two points, the start and the
  end, the second flagged path-end with reference 0.
\<close>

theorem straight_path_over_corridor_witness:
  "(let fp = fst (findPath (detour no_module) query0 64 64 \<lparr>x = 1 / 2, y = 0, z = 1 / 2\<rparr>
               \<lparr>x = 1 / 2, y = 0, z = 1 / 2\<rparr> None None grid_world);
        w1 = snd (findPath (detour no_module) query0 64 64 \<lparr>x = 1 / 2, y = 0, z = 1 / 2\<rparr>
               \<lparr>x = 1 / 2, y = 0, z = 1 / 2\<rparr> None None grid_world);
        sr = fst (findStraightPath (detour no_module) query0 \<lparr>x = 1 / 4, y = 0, z = 1 / 4\<rparr>
               \<lparr>x = 3 / 4, y = 0, z = 3 / 4\<rparr> (polys fp) None None w1)
    in success sr \<and> straightPathCount sr = 2
       \<and> \<lparr>x = arr_get (straightPath sr) 0, y = arr_get (straightPath sr) 1,
           z = arr_get (straightPath sr) 2\<rparr> = \<lparr>x = 1 / 4, y = 0, z = 1 / 4\<rparr>
       \<and> \<lparr>x = arr_get (straightPath sr) 3, y = arr_get (straightPath sr) 4,
           z = arr_get (straightPath sr) 5\<rparr> = \<lparr>x = 3 / 4, y = 0, z = 3 / 4\<rparr>
       \<and> arr_get (straightPathFlags sr) 1 = PathEnd
       \<and> arr_get (straightPathRefs sr) 1 = 0)"
proof -
  let ?c = "\<lparr>x = 1 / 2, y = 0, z = 1 / 2\<rparr> :: Vector3"
  let ?fp = "fst (findPath (detour no_module) query0 64 64 ?c ?c None None grid_world)"
  let ?w1 = "snd (findPath (detour no_module) query0 64 64 ?c ?c None None grid_world)"
  let ?sr = "fst (findStraightPath (detour no_module) query0 \<lparr>x = 1 / 4, y = 0, z = 1 / 4\<rparr>
               \<lparr>x = 3 / 4, y = 0, z = 3 / 4\<rparr> (polys ?fp) None None ?w1)"
  note F = findPath_detour [OF grid_findPath_64, of no_module]
  note G = findStraightPath_detour [OF grid_findStraightPath_64(1) [OF refl refl], of no_module query0]
  have ok: "success ?fp"
    by (simp add: F(2))
  have sz: "0 < arr_size (polys ?fp)"
    by (simp add: F(3) raw_array_of_def)
  have p: "arr_get (polys ?fp) 0 = 64" "arr_get (polys ?fp) (arr_size (polys ?fp) - 1) = 64"
    by (simp_all add: F(3) raw_array_of_def)
  have n: "straightPathCount ?sr = 2"
    by (simp add: G(3))
  have b: "\<not> statusDetail (status ?sr) BufferTooSmall"
    by (simp add: G(1))
  note T = straight_path_over_corridor [OF refl refl ok sz _ refl refl refl refl,
      of None "\<lparr>x = 1 / 4, y = 0, z = 1 / 4\<rparr>" "\<lparr>x = 3 / 4, y = 0, z = 3 / 4\<rparr>" None]
  have "success ?sr
     \<and> \<lparr>x = arr_get (straightPath ?sr) 0, y = arr_get (straightPath ?sr) 1,
           z = arr_get (straightPath ?sr) 2\<rparr> = \<lparr>x = 1 / 4, y = 0, z = 1 / 4\<rparr>
     \<and> \<lparr>x = arr_get (straightPath ?sr) 3, y = arr_get (straightPath ?sr) 4,
           z = arr_get (straightPath ?sr) 5\<rparr> = \<lparr>x = 3 / 4, y = 0, z = 3 / 4\<rparr>
     \<and> arr_get (straightPathFlags ?sr) 1 = PathEnd
     \<and> arr_get (straightPathRefs ?sr) 1 = 0"
    using T b
    by (simp add: n p grid_world_fields grid_clamp_64)
  then show ?thesis
    using n by (simp add: Let_def)
qed

text \<open>
  C1, as stated, fails: over the same corridor and between the same positions, with
  \<^verbatim>\<open>maxStraightPathPoints\<close> = 1, the bound is reached before the end is emitted. The call
  succeeds, flagged buffer-too-small, with one point: the start, flagged normal, with
  reference 64. The last point is not the clamped end \<open>(3/4, 0, 3/4)\<close>, its flag is not
  path-end and its reference is not 0.
\<close>

theorem straight_path_cut_short:
  "(let fp = fst (findPath (detour no_module) query0 64 64 \<lparr>x = 1 / 2, y = 0, z = 1 / 2\<rparr>
               \<lparr>x = 1 / 2, y = 0, z = 1 / 2\<rparr> None None grid_world);
        w1 = snd (findPath (detour no_module) query0 64 64 \<lparr>x = 1 / 2, y = 0, z = 1 / 2\<rparr>
               \<lparr>x = 1 / 2, y = 0, z = 1 / 2\<rparr> None None grid_world);
        sr = fst (findStraightPath (detour no_module) query0 \<lparr>x = 1 / 4, y = 0, z = 1 / 4\<rparr>
               \<lparr>x = 3 / 4, y = 0, z = 3 / 4\<rparr> (polys fp) (Some 1) None w1)
    in success fp \<and> array (arr_get (polys fp)) (arr_size (polys fp)) = [64]
       \<and> success sr \<and> statusDetail (status sr) BufferTooSmall \<and> straightPathCount sr = 1
       \<and> \<lparr>x = arr_get (straightPath sr) 0, y = arr_get (straightPath sr) 1,
           z = arr_get (straightPath sr) 2\<rparr> = \<lparr>x = 1 / 4, y = 0, z = 1 / 4\<rparr>
       \<and> arr_get (straightPathFlags sr) 0 = Normal
       \<and> arr_get (straightPathRefs sr) 0 = 64
       \<and> clampToPoly grid_mesh 64 \<lparr>x = 3 / 4, y = 0, z = 3 / 4\<rparr> = \<lparr>x = 3 / 4, y = 0, z = 3 / 4\<rparr>)"
proof -
  let ?c = "\<lparr>x = 1 / 2, y = 0, z = 1 / 2\<rparr> :: Vector3"
  let ?fp = "fst (findPath (detour no_module) query0 64 64 ?c ?c None None grid_world)"
  let ?w1 = "snd (findPath (detour no_module) query0 64 64 ?c ?c None None grid_world)"
  let ?sr = "fst (findStraightPath (detour no_module) query0 \<lparr>x = 1 / 4, y = 0, z = 1 / 4\<rparr>
               \<lparr>x = 3 / 4, y = 0, z = 3 / 4\<rparr> (polys ?fp) (Some 1) None ?w1)"
  note F = findPath_detour [OF grid_findPath_64, of no_module]
  note G = findStraightPath_detour [OF grid_findStraightPath_64(2) [OF refl refl], of no_module query0]
  have a: "success ?fp"
    by (simp add: F(2))
  have b: "array (arr_get (polys ?fp)) (arr_size (polys ?fp)) = [64]"
    unfolding F(3) by (rule array_raw_array_of)
  have c: "success ?sr" "statusDetail (status ?sr) BufferTooSmall" "straightPathCount ?sr = 1"
    by (simp_all add: G(1,2,3))
  have d: "\<lparr>x = arr_get (straightPath ?sr) 0, y = arr_get (straightPath ?sr) 1,
           z = arr_get (straightPath ?sr) 2\<rparr> = \<lparr>x = 1 / 4, y = 0, z = 1 / 4\<rparr>"
    "arr_get (straightPathFlags ?sr) 0 = Normal"
    "arr_get (straightPathRefs ?sr) 0 = 64"
    unfolding G(4,5,6) by (simp_all add: written_def raw_array_of_def)
  show ?thesis
    unfolding Let_def
    by (intro conjI a b c d grid_clamp_64(2))
qed

end
